theory Spec2Isabelle
  imports Complex_Main
begin

section \<open>JavaScript strings and values\<close>

text \<open>
  A JavaScript string is modelled as a \<^typ>\<open>string\<close> whose characters are the code units
  below 256 (Basic Latin and Latin-1). A value that may be \<open>undefined\<close> or \<open>null\<close> is an
  \<^typ>\<open>'a option\<close> with \<^term>\<open>None\<close> for the absent value.
\<close>

definition is_ws :: "char \<Rightarrow> bool" where
  \<comment> \<open>White space and line terminators of ECMAScript in the modelled range:
      TAB, LF, VT, FF, CR, SPACE and NO-BREAK SPACE.\<close>
  "is_ws c = (of_char c \<in> {9, 10, 11, 12, 13, 32, 160 :: nat})"

definition trim :: "string \<Rightarrow> string" where
  \<comment> \<open>\<open>String.prototype.trim\<close>\<close>
  "trim s = rev (dropWhile is_ws (rev (dropWhile is_ws s)))"

definition truthy :: "string option \<Rightarrow> bool" where
  \<comment> \<open>truthiness of a value that is a string, \<open>undefined\<close> or \<open>null\<close>\<close>
  "truthy v = (case v of None \<Rightarrow> False | Some s \<Rightarrow> s \<noteq> [])"

definition js_or :: "string option \<Rightarrow> string option \<Rightarrow> string option" where
  \<comment> \<open>\<open>a || b\<close>\<close>
  "js_or a b = (if truthy a then a else b)"

definition or_undefined :: "string \<Rightarrow> string option" where
  \<comment> \<open>\<open>s || undefined\<close>\<close>
  "or_undefined s = (if s = [] then None else Some s)"

definition startsWith :: "string \<Rightarrow> string \<Rightarrow> bool" where
  \<comment> \<open>\<open>s.startsWith(p)\<close>\<close>
  "startsWith s p = (take (length p) s = p)"

definition js_or_str :: "string option \<Rightarrow> string \<Rightarrow> string" where
  \<comment> \<open>\<open>a || "literal"\<close> with a non-empty literal\<close>
  "js_or_str a d = (case a of None \<Rightarrow> d | Some s \<Rightarrow> if s = [] then d else s)"

definition to_string :: "string option \<Rightarrow> string" where
  \<comment> \<open>\<open>ToString\<close> of a value that is a string or \<open>undefined\<close>\<close>
  "to_string v = (case v of None \<Rightarrow> ''undefined'' | Some s \<Rightarrow> s)"

subsection \<open>Number(string)\<close>

text \<open>
  \<open>Number(s)\<close> converts a string by the \<open>StringNumericLiteral\<close> grammar: white space is
  stripped, the empty string is 0, and what is left is a binary, octal or hexadecimal
  integer, or a signed decimal literal with optional fraction and exponent, or
  \<open>Infinity\<close>; anything else is \<open>NaN\<close>. The model keeps the exact value of the literal as
  a rational where the source rounds it to a double, so a literal beyond the range of a
  double, \<open>Infinity\<close> in the source, is a finite \<open>Num\<close> here; which strings are \<open>NaN\<close>
  and the value of the blank string do not depend on the rounding.
\<close>

datatype jsnum = NaN | PosInf | NegInf | Num rat

definition is_digit :: "char \<Rightarrow> bool" where
  "is_digit c = (48 \<le> (of_char c :: nat) \<and> (of_char c :: nat) \<le> 57)"

definition is_hex_digit :: "char \<Rightarrow> bool" where
  "is_hex_digit c =
     (is_digit c \<or> (65 \<le> (of_char c :: nat) \<and> (of_char c :: nat) \<le> 70)
      \<or> (97 \<le> (of_char c :: nat) \<and> (of_char c :: nat) \<le> 102))"

definition is_octal_digit :: "char \<Rightarrow> bool" where
  "is_octal_digit c = (48 \<le> (of_char c :: nat) \<and> (of_char c :: nat) \<le> 55)"

definition is_binary_digit :: "char \<Rightarrow> bool" where
  "is_binary_digit c = (c = CHR ''0'' \<or> c = CHR ''1'')"

definition digit_of :: "char \<Rightarrow> nat" where
  "digit_of c =
     (let n = of_char c
      in if 97 \<le> n then n - 87 else if 65 \<le> n then n - 55 else n - 48)"

definition digits_val :: "nat \<Rightarrow> string \<Rightarrow> nat" where
  "digits_val base ds = foldl (\<lambda>a c. a * base + digit_of c) 0 ds"

definition pow10 :: "int \<Rightarrow> rat" where
  "pow10 e = (if 0 \<le> e then 10 ^ nat e else 1 / 10 ^ nat (- e))"

definition exponent_digits :: "string \<Rightarrow> int option" where
  "exponent_digits ds =
     (if ds \<noteq> [] \<and> list_all is_digit ds then Some (int (digits_val 10 ds)) else None)"

definition exponent_of :: "string \<Rightarrow> int option" where
  \<comment> \<open>\<open>ExponentPart\<close>, or nothing: the exponent, \<^term>\<open>None\<close> when the rest is not one\<close>
  "exponent_of r =
     (case r of
        [] \<Rightarrow> Some 0
      | c # r' \<Rightarrow>
          if c = CHR ''e'' \<or> c = CHR ''E'' then
            (case r' of
               [] \<Rightarrow> None
             | s # ds \<Rightarrow>
                 if s = CHR ''+'' then exponent_digits ds
                 else if s = CHR ''-'' then map_option uminus (exponent_digits ds)
                 else exponent_digits r')
          else None)"

definition unsigned_decimal :: "string \<Rightarrow> jsnum" where
  \<comment> \<open>\<open>StrUnsignedDecimalLiteral\<close>\<close>
  "unsigned_decimal t =
     (if t = ''Infinity'' then PosInf
      else
        let ip = takeWhile is_digit t;
            r1 = dropWhile is_digit t;
            dot = (r1 \<noteq> [] \<and> hd r1 = CHR ''.'');
            fp = (if dot then takeWhile is_digit (tl r1) else []);
            r2 = (if dot then dropWhile is_digit (tl r1) else r1)
        in if ip = [] \<and> fp = [] then NaN
           else case exponent_of r2 of
                  None \<Rightarrow> NaN
                | Some e \<Rightarrow> Num (of_nat (digits_val 10 (ip @ fp)) * pow10 (e - int (length fp))))"

definition negate :: "jsnum \<Rightarrow> jsnum" where
  "negate n = (case n of NaN \<Rightarrow> NaN | PosInf \<Rightarrow> NegInf | NegInf \<Rightarrow> PosInf | Num r \<Rightarrow> Num (- r))"

definition str_decimal :: "string \<Rightarrow> jsnum" where
  \<comment> \<open>\<open>StrDecimalLiteral\<close>: an optional sign before the unsigned literal\<close>
  "str_decimal t =
     (case t of
        [] \<Rightarrow> NaN
      | c # r \<Rightarrow>
          if c = CHR ''+'' then unsigned_decimal r
          else if c = CHR ''-'' then negate (unsigned_decimal r)
          else unsigned_decimal t)"

definition non_decimal :: "string \<Rightarrow> jsnum option" where
  \<comment> \<open>\<open>NonDecimalIntegerLiteral\<close>: \<open>0x\<close>, \<open>0o\<close> or \<open>0b\<close> and at least one digit of that base\<close>
  "non_decimal t =
     (case t of
        z # p # ds \<Rightarrow>
          if z = CHR ''0'' \<and> ds \<noteq> [] then
            (if (p = CHR ''x'' \<or> p = CHR ''X'') \<and> list_all is_hex_digit ds
               then Some (Num (of_nat (digits_val 16 ds)))
             else if (p = CHR ''o'' \<or> p = CHR ''O'') \<and> list_all is_octal_digit ds
               then Some (Num (of_nat (digits_val 8 ds)))
             else if (p = CHR ''b'' \<or> p = CHR ''B'') \<and> list_all is_binary_digit ds
               then Some (Num (of_nat (digits_val 2 ds)))
             else None)
          else None
      | _ \<Rightarrow> None)"

definition js_Number :: "string \<Rightarrow> jsnum" where
  \<comment> \<open>\<open>Number(s)\<close>\<close>
  "js_Number s =
     (let t = trim s
      in if t = [] then Num 0
         else case non_decimal t of Some n \<Rightarrow> n | None \<Rightarrow> str_decimal t)"

definition nan_to_undefined :: "jsnum \<Rightarrow> jsnum option" where
  \<comment> \<open>\<open>Number.isNaN(x) ? undefined : x\<close>\<close>
  "nan_to_undefined x = (case x of NaN \<Rightarrow> None | _ \<Rightarrow> Some x)"

subsection \<open>URLSearchParams\<close>

text \<open>
  \<open>new URLSearchParams(record).toString()\<close> serialises the pairs in insertion order as
  \<open>application/x-www-form-urlencoded\<close>: each name and value is encoded as UTF-8, a space
  becomes \<open>+\<close>, the bytes of letters, digits and \<open>* - . _\<close> stay, and every other byte is
  written as \<open>%\<close> and two upper-case hexadecimal digits.
\<close>

definition utf8 :: "char \<Rightarrow> nat list" where
  "utf8 c = (let n = of_char c in if n < 128 then [n] else [192 + n div 64, 128 + n mod 64])"

definition hex_digit :: "nat \<Rightarrow> char" where
  "hex_digit n = (if n < 10 then char_of (48 + n) else char_of (55 + n))"

definition form_unreserved :: "nat \<Rightarrow> bool" where
  "form_unreserved b =
     ((48 \<le> b \<and> b \<le> 57) \<or> (65 \<le> b \<and> b \<le> 90) \<or> (97 \<le> b \<and> b \<le> 122)
      \<or> b = 42 \<or> b = 45 \<or> b = 46 \<or> b = 95)"

definition urlencoded_byte :: "nat \<Rightarrow> string" where
  "urlencoded_byte b =
     (if b = 32 then ''+''
      else if form_unreserved b then [char_of b]
      else [CHR ''%'', hex_digit (b div 16), hex_digit (b mod 16)])"

definition urlencode :: "string \<Rightarrow> string" where
  "urlencode s = concat (map urlencoded_byte (concat (map utf8 s)))"

fun join_amp :: "string list \<Rightarrow> string" where
  "join_amp [] = []"
| "join_amp [x] = x"
| "join_amp (x # y # ys) = x @ ''&'' @ join_amp (y # ys)"

definition URLSearchParams_toString :: "(string \<times> string) list \<Rightarrow> string" where
  "URLSearchParams_toString ps =
     join_amp (map (\<lambda>(k, v). urlencode k @ ''='' @ urlencode v) ps)"

section \<open>What the components do to their surroundings\<close>

datatype variant = Default | Destructive

text \<open>
  The calls a handler makes, in the order it makes them. \<open>Fetch url body\<close> is the POST of
  the JSON text of \<open>body\<close> to \<open>url\<close>; \<open>Toast\<close> is \<open>toast({description, variant})\<close>, with
  \<^term>\<open>Default\<close> when no variant is given.
\<close>

datatype 'p event =
    Toast string variant
  | Fetch string 'p
  | SetItem string string
  | RemoveItem string
  | Push string
  | ConsoleError string

type_synonym storage = "string \<rightharpoonup> string"

text \<open>
  The answer to a \<open>fetch\<close>: the promise is rejected with a thrown value, or resolved with a
  response. \<open>json\<close> is the parsed body, \<^term>\<open>None\<close> when \<open>response.json()\<close> is rejected.
\<close>

datatype thrown = ErrorObj string | NonError

text \<open>
  Modelled from the spec: the type of the response bodies is not declared in the source.
  The external interfaces give a non-success body the members \<open>detail\<close> or \<open>error\<close> and a
  successful OTP response the member \<open>session_id\<close> or \<open>sessionId\<close>. A body that parses
  to an object is the map of its string members; a body that parses to a number, a string,
  a boolean or an array has none of the members read and is the empty map; a body that
  parses to \<open>null\<close> is \<^term>\<open>JsonNull\<close>.
\<close>

datatype json_body = JsonNull | JsonObject "string \<rightharpoonup> string"

record response =
  ok :: bool
  json :: "json_body option"

datatype fetch_result = Rejected thrown | Resolved response

definition json_or_empty :: "response \<Rightarrow> json_body" where
  \<comment> \<open>\<open>await response.json().catch(() => ({}))\<close>\<close>
  "json_or_empty r = (case json r of None \<Rightarrow> JsonObject Map.empty | Some d \<Rightarrow> d)"

definition member_opt :: "json_body \<Rightarrow> string \<Rightarrow> string option" where
  \<comment> \<open>\<open>data?.name\<close>\<close>
  "member_opt data name = (case data of JsonNull \<Rightarrow> None | JsonObject m \<Rightarrow> m name)"

definition member_strict :: "string \<Rightarrow> json_body \<Rightarrow> string \<Rightarrow> thrown + string option" where
  \<comment> \<open>\<open>data.name\<close>: reading a member of \<open>null\<close> throws a \<open>TypeError\<close>, whose message is the
      engine's own text, the first argument\<close>
  "member_strict type_error_text data name =
     (case data of JsonNull \<Rightarrow> Inl (ErrorObj type_error_text) | JsonObject m \<Rightarrow> Inr (m name))"

definition caught_message :: "thrown \<Rightarrow> string \<Rightarrow> string" where
  \<comment> \<open>\<open>error instanceof Error ? error.message : fallback\<close>\<close>
  "caught_message e fallback = (case e of ErrorObj m \<Rightarrow> m | NonError \<Rightarrow> fallback)"

text \<open>
  Modelled from the spec: the shape of the record stored under \<open>verification_complete\<close> is
  not declared in the source, where \<open>JSON.parse\<close> returns an untyped value. The data model
  gives a verification proof the members email, sessionId, purpose, verifiedAt and an
  optional name; \<open>verifiedAt\<close> and \<open>Date.now()\<close> are milliseconds, whole numbers.
\<close>

record verification_proof =
  pf_email :: string
  pf_sessionId :: string
  pf_purpose :: string
  pf_verifiedAt :: int
  pf_name :: "string option"

text \<open>\<open>JSON.parse(stored)\<close> and the reads of \<open>data\<close> throw, or give a proof.\<close>

datatype parsed = Throws | Parsed verification_proof

record verification_data =
  vd_email :: string
  vd_sessionId :: string

text \<open>
  The state of a submission form: the two \<open>useState\<close> cells and the values held by
  \<open>useForm\<close>.
\<close>

record 'v form_state =
  isVerified :: bool
  verificationData :: "verification_data option"
  formValues :: 'v

definition initial_state :: "'v \<Rightarrow> 'v form_state" where
  \<comment> \<open>\<open>useState(false)\<close>, \<open>useState(null)\<close>, \<open>useForm({ defaultValues })\<close>\<close>
  "initial_state dv = \<lparr>isVerified = False, verificationData = None, formValues = dv\<rparr>"

text \<open>
  An effect's callback may return a cleanup, which React runs when the component is
  unmounted; the storage is what outlives the component.
\<close>

definition unmount :: "(storage \<Rightarrow> storage) option \<Rightarrow> storage \<Rightarrow> storage" where
  "unmount cleanup sessionStorage =
     (case cleanup of None \<Rightarrow> sessionStorage | Some f \<Rightarrow> f sessionStorage)"

section \<open>The research submission form\<close>

text \<open>Field names carry a prefix for the interface they belong to.\<close>

record participant_form =
  pt_fullName :: string
  pt_participantType :: string
  pt_email :: string
  pt_role :: string
  pt_designation :: string
  pt_organization :: string
  pt_linkedinUrl :: string
  pt_orcidId :: string

record research_values =
  r_title :: string
  r_abstract :: string
  r_description :: string
  r_researchType :: string
  r_status :: string
  r_principalInvestigator :: string
  r_piEmail :: string
  r_startDate :: string
  r_endDate :: string
  r_fundingAgency :: string
  r_fundingAmount :: string
  r_keywords :: string
  r_methodology :: string
  r_expectedOutcomes :: string
  r_publicationsUrl :: string
  r_projectUrl :: string
  r_githubUrl :: string
  r_submittedByName :: string
  r_submittedByEmail :: string
  r_participants :: "participant_form list"

definition research_defaultValues :: research_values where
  "research_defaultValues =
     \<lparr>r_title = [], r_abstract = [], r_description = [], r_researchType = ''applied'',
      r_status = ''proposed'', r_principalInvestigator = [], r_piEmail = [],
      r_startDate = [], r_endDate = [], r_fundingAgency = [], r_fundingAmount = [],
      r_keywords = [], r_methodology = [], r_expectedOutcomes = [],
      r_publicationsUrl = [], r_projectUrl = [], r_githubUrl = [],
      r_submittedByName = [], r_submittedByEmail = [],
      r_participants =
        [\<lparr>pt_fullName = [], pt_participantType = ''student'', pt_email = [],
          pt_role = ''Researcher'', pt_designation = [], pt_organization = [],
          pt_linkedinUrl = [], pt_orcidId = []\<rparr>]\<rparr>"

record participant_payload =
  pp_full_name :: string
  pp_participant_type :: string
  pp_email :: "string option"
  pp_role :: "string option"
  pp_designation :: "string option"
  pp_organization :: "string option"
  pp_linkedin_url :: "string option"
  pp_orcid_id :: "string option"
  pp_department :: string

record research_payload =
  rp_title :: string
  rp_abstract :: string
  rp_description :: string
  rp_research_type :: string
  rp_status :: string
  rp_principal_investigator :: string
  rp_pi_email :: string
  rp_start_date :: "string option"
  rp_end_date :: "string option"
  rp_funding_agency :: "string option"
  rp_funding_amount :: "jsnum option"
  rp_keywords :: "string option"
  rp_methodology :: "string option"
  rp_expected_outcomes :: "string option"
  rp_publications_url :: "string option"
  rp_project_url :: "string option"
  rp_github_url :: "string option"
  rp_submitted_by_name :: string
  rp_submitted_by_email :: string
  rp_department :: string
  rp_participants :: "participant_payload list"
  rp_otp_session :: string

definition research_effect ::
  "(string \<Rightarrow> parsed) \<Rightarrow> int \<Rightarrow> string option \<Rightarrow> storage \<Rightarrow> research_values form_state
     \<Rightarrow> research_values form_state \<times> research_payload event list" where
  \<comment> \<open>The \<open>useEffect\<close> callback. \<open>now\<close> is \<open>Date.now()\<close> and \<open>verified\<close> is
      \<open>searchParams.get("verified")\<close>.\<close>
  "research_effect JSON_parse now verified sessionStorage st =
     (if verified = Some ''true'' then
        (case sessionStorage ''verification_complete'' of
           None \<Rightarrow> (st, [])
         | Some stored \<Rightarrow>
             if stored = [] then (st, [])
             else
               (case JSON_parse stored of
                  Throws \<Rightarrow> (st, [ConsoleError ''Failed to parse verification data''])
                | Parsed data \<Rightarrow>
                    if pf_purpose data = ''research_submission''
                       \<and> now - pf_verifiedAt data < 30 * 60 * 1000
                    then
                      let st1 = st\<lparr>isVerified := True\<rparr>;
                          st2 = st1\<lparr>verificationData :=
                                  Some \<lparr>vd_email = pf_email data,
                                        vd_sessionId = pf_sessionId data\<rparr>\<rparr>;
                          st3 = st2\<lparr>formValues :=
                                  (formValues st2)\<lparr>r_submittedByEmail := pf_email data\<rparr>\<rparr>;
                          st4 = (case pf_name data of
                                   None \<Rightarrow> st3
                                 | Some name \<Rightarrow>
                                     if name = [] then st3
                                     else st3\<lparr>formValues :=
                                            (formValues st3)\<lparr>r_submittedByName := name\<rparr>\<rparr>)
                      in (st4, [Toast ''Email verified successfully!'' Default])
                    else (st, [])))
      else (st, []))"

definition research_effect_cleanup :: "(storage \<Rightarrow> storage) option" where
  \<comment> \<open>the callback above has no \<open>return\<close>: it gives React no cleanup\<close>
  "research_effect_cleanup = None"

definition research_participant :: "string \<Rightarrow> participant_form \<Rightarrow> participant_payload" where
  "research_participant department_uuid participant =
     \<lparr>pp_full_name = trim (pt_fullName participant),
      pp_participant_type = pt_participantType participant,
      pp_email = or_undefined (trim (pt_email participant)),
      pp_role = or_undefined (trim (pt_role participant)),
      pp_designation = or_undefined (trim (pt_designation participant)),
      pp_organization = or_undefined (trim (pt_organization participant)),
      pp_linkedin_url = or_undefined (trim (pt_linkedinUrl participant)),
      pp_orcid_id = or_undefined (trim (pt_orcidId participant)),
      pp_department = department_uuid\<rparr>"

definition research_participants :: "string \<Rightarrow> participant_form list \<Rightarrow> participant_payload list" where
  \<comment> \<open>\<open>values.participants.map(...).filter((participant) => participant.full_name)\<close>\<close>
  "research_participants department_uuid rows =
     filter (\<lambda>participant. pp_full_name participant \<noteq> [])
       (map (research_participant department_uuid) rows)"

definition research_build_payload ::
  "string \<Rightarrow> verification_data \<Rightarrow> research_values \<Rightarrow> research_payload" where
  "research_build_payload department_uuid vd vals =
     (let participants = research_participants department_uuid (r_participants vals);
          funding = js_Number (r_fundingAmount vals)
      in \<lparr>rp_title = trim (r_title vals),
          rp_abstract = trim (r_abstract vals),
          rp_description = trim (r_description vals),
          rp_research_type = r_researchType vals,
          rp_status = r_status vals,
          rp_principal_investigator = trim (r_principalInvestigator vals),
          rp_pi_email = trim (r_piEmail vals),
          rp_start_date = or_undefined (r_startDate vals),
          rp_end_date = or_undefined (r_endDate vals),
          rp_funding_agency = or_undefined (trim (r_fundingAgency vals)),
          rp_funding_amount = nan_to_undefined funding,
          rp_keywords = or_undefined (trim (r_keywords vals)),
          rp_methodology = or_undefined (trim (r_methodology vals)),
          rp_expected_outcomes = or_undefined (trim (r_expectedOutcomes vals)),
          rp_publications_url = or_undefined (trim (r_publicationsUrl vals)),
          rp_project_url = or_undefined (trim (r_projectUrl vals)),
          rp_github_url = or_undefined (trim (r_githubUrl vals)),
          rp_submitted_by_name = trim (r_submittedByName vals),
          rp_submitted_by_email = vd_email vd,
          rp_department = department_uuid,
          rp_participants = participants,
          rp_otp_session = vd_sessionId vd\<rparr>)"

definition research_onSubmit ::
  "string \<Rightarrow> fetch_result \<Rightarrow> research_values \<Rightarrow> storage \<Rightarrow> research_values form_state
     \<Rightarrow> (research_values form_state \<times> storage) \<times> research_payload event list" where
  \<comment> \<open>\<open>onSubmit(values)\<close>. \<open>answer\<close> is what the \<open>fetch\<close> comes back with, if it is made. The
      first case is \<open>verificationData?.sessionId\<close> read from \<open>null\<close>.\<close>
  "research_onSubmit department_uuid answer vals sessionStorage st =
     (case verificationData st of
        None \<Rightarrow>
          ((st, sessionStorage),
           [Toast ''Verify your campus email before submitting'' Destructive])
      | Some vd \<Rightarrow>
          if \<not> isVerified st \<or> vd_sessionId vd = [] then
            ((st, sessionStorage),
             [Toast ''Verify your campus email before submitting'' Destructive])
          else
            let payload = research_build_payload department_uuid vd vals;
                request = Fetch ''/api/submissions/research'' payload
            in
              (case answer of
                 Rejected e \<Rightarrow>
                   ((st, sessionStorage),
                    [request, Toast (caught_message e ''Failed to submit research'') Destructive])
               | Resolved response \<Rightarrow>
                   let data = json_or_empty response
                   in if \<not> ok response then
                        let message = js_or_str (js_or (member_opt data ''detail'') (member_opt data ''error''))
                                        ''Failed to submit research''
                        in ((st, sessionStorage),
                            [request,
                             Toast (caught_message (ErrorObj message) ''Failed to submit research'')
                               Destructive])
                      else
                        ((st\<lparr>formValues := research_defaultValues, isVerified := False,
                             verificationData := None\<rparr>,
                          sessionStorage(''verification_complete'' := None)),
                         [request, Toast ''Research submitted for departmental review'' Default,
                          RemoveItem ''verification_complete''])))"

section \<open>The journal submission form\<close>

record author_form =
  au_givenName :: string
  au_familyName :: string
  au_email :: string
  au_affiliation :: string
  au_country :: string
  au_bio :: string

record journal_values =
  j_title :: string
  j_genre :: string
  j_abstract :: string
  j_keywords :: string
  j_discipline :: string
  j_year :: string
  j_volume :: string
  j_number :: string
  j_pages :: string
  j_submittedByName :: string
  j_submittedByEmail :: string
  j_authors :: "author_form list"

definition journal_defaultValues :: journal_values where
  "journal_defaultValues =
     \<lparr>j_title = [], j_genre = [], j_abstract = [], j_keywords = [], j_discipline = [],
      j_year = [], j_volume = [], j_number = [], j_pages = [], j_submittedByName = [],
      j_submittedByEmail = [],
      j_authors =
        [\<lparr>au_givenName = [], au_familyName = [], au_email = [], au_affiliation = [],
          au_country = [], au_bio = []\<rparr>]\<rparr>"

record author_payload =
  ap_given_name :: string
  ap_family_name :: "string option"
  ap_email :: "string option"
  ap_affiliation :: "string option"
  ap_country :: "string option"
  ap_bio :: "string option"

record journal_payload =
  jp_title :: string
  jp_genre :: string
  jp_abstract :: string
  jp_keywords :: "string option"
  jp_discipline :: "string option"
  jp_year :: "jsnum option"
  jp_volume :: "jsnum option"
  jp_number :: "jsnum option"
  jp_pages :: "string option"
  jp_submitted_by_name :: string
  jp_submitted_by_email :: string
  jp_department :: string
  jp_authors :: "author_payload list"
  jp_otp_session :: string

definition journal_effect ::
  "(string \<Rightarrow> parsed) \<Rightarrow> int \<Rightarrow> string option \<Rightarrow> storage \<Rightarrow> journal_values form_state
     \<Rightarrow> journal_values form_state \<times> journal_payload event list" where
  "journal_effect JSON_parse now verified sessionStorage st =
     (if verified = Some ''true'' then
        (case sessionStorage ''verification_complete'' of
           None \<Rightarrow> (st, [])
         | Some stored \<Rightarrow>
             if stored = [] then (st, [])
             else
               (case JSON_parse stored of
                  Throws \<Rightarrow> (st, [ConsoleError ''Failed to parse verification data''])
                | Parsed data \<Rightarrow>
                    if pf_purpose data = ''journal_submission''
                       \<and> now - pf_verifiedAt data < 30 * 60 * 1000
                    then
                      let st1 = st\<lparr>isVerified := True\<rparr>;
                          st2 = st1\<lparr>verificationData :=
                                  Some \<lparr>vd_email = pf_email data,
                                        vd_sessionId = pf_sessionId data\<rparr>\<rparr>;
                          st3 = st2\<lparr>formValues :=
                                  (formValues st2)\<lparr>j_submittedByEmail := pf_email data\<rparr>\<rparr>;
                          st4 = (case pf_name data of
                                   None \<Rightarrow> st3
                                 | Some name \<Rightarrow>
                                     if name = [] then st3
                                     else st3\<lparr>formValues :=
                                            (formValues st3)\<lparr>j_submittedByName := name\<rparr>\<rparr>)
                      in (st4, [Toast ''Email verified successfully!'' Default])
                    else (st, [])))
      else (st, []))"

definition journal_effect_cleanup :: "(storage \<Rightarrow> storage) option" where
  \<comment> \<open>no \<open>return\<close> in the callback here either\<close>
  "journal_effect_cleanup = None"

definition journal_author :: "author_form \<Rightarrow> author_payload" where
  "journal_author author =
     \<lparr>ap_given_name = trim (au_givenName author),
      ap_family_name = or_undefined (trim (au_familyName author)),
      ap_email = or_undefined (trim (au_email author)),
      ap_affiliation = or_undefined (trim (au_affiliation author)),
      ap_country = or_undefined (trim (au_country author)),
      ap_bio = or_undefined (trim (au_bio author))\<rparr>"

definition journal_authors :: "author_form list \<Rightarrow> author_payload list" where
  \<comment> \<open>\<open>values.authors.map(...).filter((author) => author.given_name)\<close>\<close>
  "journal_authors rows =
     filter (\<lambda>author. ap_given_name author \<noteq> []) (map journal_author rows)"

definition journal_build_payload ::
  "string \<Rightarrow> verification_data \<Rightarrow> journal_values \<Rightarrow> journal_payload" where
  "journal_build_payload department_uuid vd vals =
     (let authors = journal_authors (j_authors vals);
          year = js_Number (j_year vals);
          volume = js_Number (j_volume vals);
          number = js_Number (j_number vals)
      in \<lparr>jp_title = trim (j_title vals),
          jp_genre = trim (j_genre vals),
          jp_abstract = trim (j_abstract vals),
          jp_keywords = or_undefined (trim (j_keywords vals)),
          jp_discipline = or_undefined (trim (j_discipline vals)),
          jp_year = nan_to_undefined year,
          jp_volume = nan_to_undefined volume,
          jp_number = nan_to_undefined number,
          jp_pages = or_undefined (trim (j_pages vals)),
          jp_submitted_by_name = trim (j_submittedByName vals),
          jp_submitted_by_email = vd_email vd,
          jp_department = department_uuid,
          jp_authors = authors,
          jp_otp_session = vd_sessionId vd\<rparr>)"

definition journal_onSubmit ::
  "string \<Rightarrow> fetch_result \<Rightarrow> journal_values \<Rightarrow> storage \<Rightarrow> journal_values form_state
     \<Rightarrow> (journal_values form_state \<times> storage) \<times> journal_payload event list" where
  "journal_onSubmit department_uuid answer vals sessionStorage st =
     (case verificationData st of
        None \<Rightarrow>
          ((st, sessionStorage),
           [Toast ''Verify your campus email before submitting'' Destructive])
      | Some vd \<Rightarrow>
          if \<not> isVerified st \<or> vd_sessionId vd = [] then
            ((st, sessionStorage),
             [Toast ''Verify your campus email before submitting'' Destructive])
          else if length (journal_authors (j_authors vals)) = 0 then
            ((st, sessionStorage), [Toast ''Add at least one author'' Destructive])
          else
            let payload = journal_build_payload department_uuid vd vals;
                request = Fetch ''/api/submissions/journal'' payload
            in
              (case answer of
                 Rejected e \<Rightarrow>
                   ((st, sessionStorage),
                    [request, Toast (caught_message e ''Failed to submit article'') Destructive])
               | Resolved response \<Rightarrow>
                   let data = json_or_empty response
                   in if \<not> ok response then
                        let message = js_or_str (js_or (member_opt data ''detail'') (member_opt data ''error''))
                                        ''Failed to submit article''
                        in ((st, sessionStorage),
                            [request,
                             Toast (caught_message (ErrorObj message) ''Failed to submit article'')
                               Destructive])
                      else
                        ((st\<lparr>formValues := journal_defaultValues, isVerified := False,
                             verificationData := None\<rparr>,
                          sessionStorage(''verification_complete'' := None)),
                         [request, Toast ''Journal article submitted'' Default,
                          RemoveItem ''verification_complete''])))"

section \<open>Validation before the handler\<close>

text \<open>
  Both forms submit through \<open>handleSubmit(onSubmit)\<close> of react-hook-form: the rules given to
  \<open>register\<close> are checked on the values of the form, and \<open>onSubmit\<close> is called only when
  none fails. A \<open>required\<close> rule on a text input fails when the value is the empty string;
  white space is a value. The result is the failed rules with their messages, or what the
  handler does.
\<close>

datatype field =
    Title | PrincipalInvestigator | PiEmail | Genre | Abstract | AuthorGivenName nat

definition required :: "field \<Rightarrow> string \<Rightarrow> string \<Rightarrow> (field \<times> string) list" where
  \<comment> \<open>\<open>register(name, { required: message })\<close> on the value \<open>v\<close>\<close>
  "required name message v = (if v = [] then [(name, message)] else [])"

definition research_rules :: "research_values \<Rightarrow> (field \<times> string) list" where
  "research_rules vals =
     required Title ''Title is required'' (r_title vals)
     @ required PrincipalInvestigator ''Required'' (r_principalInvestigator vals)
     @ required PiEmail ''Required'' (r_piEmail vals)"

definition journal_rules :: "journal_values \<Rightarrow> (field \<times> string) list" where
  "journal_rules vals =
     required Title ''Title is required'' (j_title vals)
     @ required Genre ''Genre is required'' (j_genre vals)
     @ required Abstract ''Abstract is required'' (j_abstract vals)
     @ concat (map (\<lambda>(index, author).
                      required (AuthorGivenName index) ''Required'' (au_givenName author))
                 (enumerate 0 (j_authors vals)))"

definition research_handleSubmit ::
  "string \<Rightarrow> fetch_result \<Rightarrow> storage \<Rightarrow> research_values form_state
     \<Rightarrow> (field \<times> string) list
        + ((research_values form_state \<times> storage) \<times> research_payload event list)" where
  "research_handleSubmit department_uuid answer sessionStorage st =
     (let errors = research_rules (formValues st)
      in if errors = []
         then Inr (research_onSubmit department_uuid answer (formValues st) sessionStorage st)
         else Inl errors)"

definition journal_handleSubmit ::
  "string \<Rightarrow> fetch_result \<Rightarrow> storage \<Rightarrow> journal_values form_state
     \<Rightarrow> (field \<times> string) list
        + ((journal_values form_state \<times> storage) \<times> journal_payload event list)" where
  "journal_handleSubmit department_uuid answer sessionStorage st =
     (let errors = journal_rules (formValues st)
      in if errors = []
         then Inr (journal_onSubmit department_uuid answer (formValues st) sessionStorage st)
         else Inl errors)"

section \<open>The verification step\<close>

record verification_step =
  vs_name :: string
  vs_email :: string
  vs_sending :: bool

record otp_request =
  otp_email :: string
  otp_full_name :: string
  otp_purpose :: string

definition handleVerify ::
  "string \<Rightarrow> string \<Rightarrow> string \<Rightarrow> fetch_result \<Rightarrow> storage \<Rightarrow> verification_step
     \<Rightarrow> (verification_step \<times> storage) \<times> otp_request event list" where
  \<comment> \<open>\<open>handleVerify\<close> of the two \<open>VerificationStep\<close> components, which differ in the purpose
      sent and in the \<open>type\<close> parameter only. \<open>setSending(true)\<close> before the request is undone
      by the \<open>finally\<close> block. \<open>data.session_id\<close> is read without \<open>?.\<close>: on a \<open>null\<close> body it
      throws inside the \<open>try\<close>, and \<open>data.sessionId\<close> is read only from a body that is not
      \<open>null\<close>.\<close>
  "handleVerify purpose form_type type_error_text answer sessionStorage vs =
     (if trim (vs_name vs) = [] \<or> trim (vs_email vs) = [] then
        ((vs, sessionStorage), [Toast ''Please enter your name and email'' Destructive])
      else
        let request = Fetch ''/api/submissions/otp/request''
                        \<lparr>otp_email = trim (vs_email vs), otp_full_name = trim (vs_name vs),
                         otp_purpose = purpose\<rparr>;
            done = vs\<lparr>vs_sending := False\<rparr>
        in
          (case answer of
             Rejected e \<Rightarrow>
               ((done, sessionStorage),
                [request, Toast (caught_message e ''Unable to send verification code'') Destructive])
           | Resolved response \<Rightarrow>
               let data = json_or_empty response
               in if \<not> ok response then
                    let message = js_or_str (js_or (member_opt data ''detail'') (member_opt data ''error''))
                                    ''Unable to send verification code''
                    in ((done, sessionStorage),
                        [request,
                         Toast (caught_message (ErrorObj message)
                                  ''Unable to send verification code'') Destructive])
                  else
                    (case member_strict type_error_text data ''session_id'' of
                       Inl e \<Rightarrow>
                         ((done, sessionStorage),
                          [request,
                           Toast (caught_message e ''Unable to send verification code'')
                             Destructive])
                     | Inr session_id \<Rightarrow>
                         let sessionId = js_or session_id (member_opt data ''sessionId'');
                             params = URLSearchParams_toString
                                        [(''email'', trim (vs_email vs)),
                                         (''name'', trim (vs_name vs)),
                                         (''type'', form_type),
                                         (''session'', to_string sessionId)]
                         in ((done,
                              sessionStorage(''pending_verification_name'' \<mapsto> trim (vs_name vs))),
                             [request,
                              SetItem ''pending_verification_name'' (trim (vs_name vs)),
                              Push (''/verification?'' @ params)]))))"

definition research_handleVerify ::
  "string \<Rightarrow> fetch_result \<Rightarrow> storage \<Rightarrow> verification_step
     \<Rightarrow> (verification_step \<times> storage) \<times> otp_request event list" where
  "research_handleVerify = handleVerify ''research_submission'' ''research''"

definition journal_handleVerify ::
  "string \<Rightarrow> fetch_result \<Rightarrow> storage \<Rightarrow> verification_step
     \<Rightarrow> (verification_step \<times> storage) \<times> otp_request event list" where
  "journal_handleVerify = handleVerify ''journal_submission'' ''journal''"

section \<open>The API base-URL resolver\<close>

definition API_BASE :: string where
  "API_BASE = ''https://cdn.tcioe.edu.np''"

definition replace_trailing_slash :: "string \<Rightarrow> string" where
  \<comment> \<open>\<open>s.replace(/\/$/, "")\<close>: one slash at the very end of the input is removed\<close>
  "replace_trailing_slash s = (if s \<noteq> [] \<and> last s = CHR ''/'' then butlast s else s)"

definition debug_hook :: "string \<Rightarrow> string list" where
  \<comment> \<open>the lines written by \<open>try { } catch (e) { /* ignore */ }\<close>: the block is empty\<close>
  "debug_hook url = []"

definition getPublicApiUrl :: "bool \<Rightarrow> bool \<Rightarrow> string \<Rightarrow> string \<times> string list" where
  \<comment> \<open>The module constants \<open>USE_PROXY\<close> and \<open>DEBUG_API\<close> are fixed when the module is loaded;
      they are the first two arguments. The result is the returned URL and the lines the
      call writes to the console.\<close>
  "getPublicApiUrl USE_PROXY DEBUG_API path =
     (if USE_PROXY
      then (''/api/proxy'' @ (if startsWith path ''/'' then [] else ''/'') @ path, [])
      else
        let base = replace_trailing_slash API_BASE;
            suffix = (if startsWith path ''/'' then path else ''/'' @ path);
            url = base @ suffix;
            logged = (if DEBUG_API then debug_hook url else [])
        in (base @ suffix, logged))"

section \<open>Requests in a trace, and example inputs\<close>

fun is_Fetch :: "'p event \<Rightarrow> bool" where
  "is_Fetch (Fetch url payload) = True"
| "is_Fetch _ = False"

definition example_proof :: verification_proof where
  "example_proof =
     \<lparr>pf_email = ''a@x.np'', pf_sessionId = ''s1'', pf_purpose = ''research_submission'',
      pf_verifiedAt = 1700000000000, pf_name = None\<rparr>"

definition example_vd :: verification_data where
  "example_vd = \<lparr>vd_email = ''a@x.np'', vd_sessionId = ''s1''\<rparr>"

definition example_verified :: "'v \<Rightarrow> 'v form_state" where
  "example_verified vals =
     \<lparr>isVerified = True,
      verificationData = Some \<lparr>vd_email = ''a@x.np'', vd_sessionId = ''s1''\<rparr>,
      formValues = vals\<rparr>"

definition blank_participant :: participant_form where
  "blank_participant =
     \<lparr>pt_fullName = '' '', pt_participantType = ''student'', pt_email = [], pt_role = [],
      pt_designation = [], pt_organization = [], pt_linkedinUrl = [], pt_orcidId = []\<rparr>"

definition example_participant :: participant_form where
  "example_participant =
     \<lparr>pt_fullName = '' Ann '', pt_participantType = ''faculty'', pt_email = [],
      pt_role = ''  '', pt_designation = [], pt_organization = [], pt_linkedinUrl = [],
      pt_orcidId = []\<rparr>"

definition blank_author :: author_form where
  "blank_author =
     \<lparr>au_givenName = [], au_familyName = ''Rai'', au_email = [], au_affiliation = [],
      au_country = [], au_bio = []\<rparr>"

definition spaces_author :: author_form where
  "spaces_author =
     \<lparr>au_givenName = '' '', au_familyName = [], au_email = [], au_affiliation = [],
      au_country = [], au_bio = []\<rparr>"

definition filled_research :: research_values where
  "filled_research =
     research_defaultValues
       \<lparr>r_title := ''T'', r_principalInvestigator := ''P I'', r_piEmail := ''pi@x.np''\<rparr>"

definition filled_journal :: "author_form list \<Rightarrow> journal_values" where
  "filled_journal rows =
     journal_defaultValues
       \<lparr>j_title := ''T'', j_genre := ''Original Article'', j_abstract := ''A'',
        j_authors := rows\<rparr>"

definition example_author :: author_form where
  "example_author =
     \<lparr>au_givenName = ''Bina'', au_familyName = [], au_email = [], au_affiliation = '' '',
      au_country = [], au_bio = []\<rparr>"

section \<open>Properties of the resolver\<close>

lemma base_without_slash: "replace_trailing_slash API_BASE = ''https://cdn.tcioe.edu.np''"
  by (simp add: replace_trailing_slash_def API_BASE_def)

lemma startsWith_slash: "startsWith path ''/'' = (path \<noteq> [] \<and> hd path = CHR ''/'')"
  by (cases path) (simp_all add: startsWith_def)

text \<open>
  C10. With the proxy flag set the result is \<open>/api/proxy\<close> followed by the path, a slash
  inserted when the path does not start with one; otherwise it is the API host, a trailing
  slash removed, followed by the path with the same normalisation. The debug flag does not
  change the result, and the call writes nothing.
\<close>

theorem getPublicApiUrl_spec:
  "fst (getPublicApiUrl True dbg path) =
     ''/api/proxy'' @ (if startsWith path ''/'' then path else ''/'' @ path)
   \<and> fst (getPublicApiUrl False dbg path) =
     replace_trailing_slash API_BASE @ (if startsWith path ''/'' then path else ''/'' @ path)
   \<and> replace_trailing_slash API_BASE = ''https://cdn.tcioe.edu.np''
   \<and> fst (getPublicApiUrl proxy True path) = fst (getPublicApiUrl proxy False path)
   \<and> snd (getPublicApiUrl proxy dbg path) = []"
  by (simp add: getPublicApiUrl_def debug_hook_def Let_def base_without_slash)

section \<open>Shared facts\<close>

lemma trim_examples:
  "trim [] = []" "trim '' '' = []" "trim ''  '' = []" "trim '' Ann '' = ''Ann''"
  "trim ''Bina'' = ''Bina''" "trim ''Rai'' = ''Rai''"
  "trim ''A B'' = ''A B''" "trim ''a@tcioe.edu.np'' = ''a@tcioe.edu.np''"
  "trim ''T'' = ''T''" "trim ''A'' = ''A''" "trim '' A B '' = ''A B''"
  "trim '' a@tcioe.edu.np'' = ''a@tcioe.edu.np''"
  by (simp_all add: trim_def is_ws_def)

lemma research_participants_filter:
  "research_participants dept rows =
     map (research_participant dept) (filter (\<lambda>p. trim (pt_fullName p) \<noteq> []) rows)"
  by (induction rows) (simp_all add: research_participants_def research_participant_def)

lemma journal_authors_filter:
  "journal_authors rows = map journal_author (filter (\<lambda>a. trim (au_givenName a) \<noteq> []) rows)"
  by (induction rows) (simp_all add: journal_authors_def journal_author_def)

lemma research_request_payload:
  "Fetch url p \<in> set (snd (research_onSubmit dept answer rv sessionStorage rs)) \<Longrightarrow>
     \<exists>vd. verificationData rs = Some vd \<and> p = research_build_payload dept vd rv"
  by (auto simp add: research_onSubmit_def Let_def
        split: option.splits fetch_result.splits if_splits)

lemma journal_request_payload:
  "Fetch url q \<in> set (snd (journal_onSubmit dept answer jv sessionStorage js)) \<Longrightarrow>
     \<exists>vd. verificationData js = Some vd \<and> q = journal_build_payload dept vd jv"
  by (auto simp add: journal_onSubmit_def Let_def
        split: option.splits fetch_result.splits if_splits)

lemma research_effect_captures:
  "sessionStorage ''verification_complete'' = Some stored \<Longrightarrow> stored \<noteq> [] \<Longrightarrow>
   JSON_parse stored = Parsed data \<Longrightarrow>
   pf_purpose data = ''research_submission'' \<and> now - pf_verifiedAt data < 1800000 \<Longrightarrow>
   verificationData (fst (research_effect JSON_parse now (Some ''true'') sessionStorage rs)) =
     Some \<lparr>vd_email = pf_email data, vd_sessionId = pf_sessionId data\<rparr>"
  by (cases "pf_name data") (simp_all add: research_effect_def Let_def)

lemma journal_effect_captures:
  "sessionStorage ''verification_complete'' = Some stored \<Longrightarrow> stored \<noteq> [] \<Longrightarrow>
   JSON_parse stored = Parsed data \<Longrightarrow>
   pf_purpose data = ''journal_submission'' \<and> now - pf_verifiedAt data < 1800000 \<Longrightarrow>
   verificationData (fst (journal_effect JSON_parse now (Some ''true'') sessionStorage js)) =
     Some \<lparr>vd_email = pf_email data, vd_sessionId = pf_sessionId data\<rparr>"
  by (cases "pf_name data") (simp_all add: journal_effect_def Let_def)

lemma payload_identity:
  "rp_submitted_by_email (research_build_payload dept vd rv) = vd_email vd"
  "rp_otp_session (research_build_payload dept vd rv) = vd_sessionId vd"
  "jp_submitted_by_email (journal_build_payload dept vd jv) = vd_email vd"
  "jp_otp_session (journal_build_payload dept vd jv) = vd_sessionId vd"
  by (simp_all add: research_build_payload_def journal_build_payload_def Let_def)

lemma payload_ignores_typed_email:
  "research_build_payload dept vd (rv\<lparr>r_submittedByEmail := typed\<rparr>) =
     research_build_payload dept vd rv"
  "journal_build_payload dept vd (jv\<lparr>j_submittedByEmail := typed\<rparr>) =
     journal_build_payload dept vd jv"
  by (simp_all add: research_build_payload_def journal_build_payload_def Let_def)

lemma js_Number_blank: "js_Number [] = Num 0" "js_Number ''  '' = Num 0"
  by (simp_all add: js_Number_def trim_def is_ws_def)

lemma non_numeric_absent:
  "js_Number (r_fundingAmount rv) = NaN \<Longrightarrow>
     rp_funding_amount (research_build_payload dept vd rv) = None"
  "js_Number (j_year jv) = NaN \<Longrightarrow> jp_year (journal_build_payload dept vd jv) = None"
  "js_Number (j_volume jv) = NaN \<Longrightarrow> jp_volume (journal_build_payload dept vd jv) = None"
  "js_Number (j_number jv) = NaN \<Longrightarrow> jp_number (journal_build_payload dept vd jv) = None"
  by (simp_all add: research_build_payload_def journal_build_payload_def Let_def
        nan_to_undefined_def)

lemma optional_text_absent:
  "trim (r_fundingAgency rv) = [] \<Longrightarrow> rp_funding_agency (research_build_payload dept vd rv) = None"
  "trim (r_keywords rv) = [] \<Longrightarrow> rp_keywords (research_build_payload dept vd rv) = None"
  "trim (r_methodology rv) = [] \<Longrightarrow> rp_methodology (research_build_payload dept vd rv) = None"
  "trim (r_expectedOutcomes rv) = [] \<Longrightarrow>
     rp_expected_outcomes (research_build_payload dept vd rv) = None"
  "trim (r_publicationsUrl rv) = [] \<Longrightarrow>
     rp_publications_url (research_build_payload dept vd rv) = None"
  "trim (r_projectUrl rv) = [] \<Longrightarrow> rp_project_url (research_build_payload dept vd rv) = None"
  "trim (r_githubUrl rv) = [] \<Longrightarrow> rp_github_url (research_build_payload dept vd rv) = None"
  "trim (j_keywords jv) = [] \<Longrightarrow> jp_keywords (journal_build_payload dept vd jv) = None"
  "trim (j_discipline jv) = [] \<Longrightarrow> jp_discipline (journal_build_payload dept vd jv) = None"
  "trim (j_pages jv) = [] \<Longrightarrow> jp_pages (journal_build_payload dept vd jv) = None"
  by (simp_all add: research_build_payload_def journal_build_payload_def Let_def or_undefined_def)

lemma dates_untrimmed:
  "rp_start_date (research_build_payload dept vd rv) =
     (if r_startDate rv = [] then None else Some (r_startDate rv))"
  "rp_end_date (research_build_payload dept vd rv) =
     (if r_endDate rv = [] then None else Some (r_endDate rv))"
  by (simp_all add: research_build_payload_def Let_def or_undefined_def)

lemma research_rules_empty:
  "(research_rules vals = []) =
     (r_title vals \<noteq> [] \<and> r_principalInvestigator vals \<noteq> [] \<and> r_piEmail vals \<noteq> [])"
  by (simp add: research_rules_def required_def)

lemma author_rules_empty:
  "(concat (map (\<lambda>(index, author).
                   required (AuthorGivenName index) ''Required'' (au_givenName author))
              (enumerate n rows)) = []) =
     list_all (\<lambda>a. au_givenName a \<noteq> []) rows"
  by (induction rows arbitrary: n) (simp_all add: required_def)

lemma journal_rules_empty:
  "(journal_rules vals = []) =
     (j_title vals \<noteq> [] \<and> j_genre vals \<noteq> [] \<and> j_abstract vals \<noteq> []
      \<and> list_all (\<lambda>a. au_givenName a \<noteq> []) (j_authors vals))"
  unfolding journal_rules_def append_is_Nil_conv author_rules_empty
  by (simp add: required_def)

lemma author_rule_fails:
  "i < length rows \<Longrightarrow> au_givenName (rows ! i) = [] \<Longrightarrow>
     (AuthorGivenName (n + i), ''Required'')
       \<in> set (concat (map (\<lambda>(index, author).
                   required (AuthorGivenName index) ''Required'' (au_givenName author))
              (enumerate n rows)))"
proof (induction rows arbitrary: n i)
  case Nil
  then show ?case by simp
next
  case (Cons a rows)
  show ?case
  proof (cases i)
    case 0
    with Cons.prems show ?thesis by (simp add: required_def)
  next
    case (Suc k)
    with Cons.prems Cons.IH [of k "Suc n"] show ?thesis by simp
  qed
qed

lemma urlencode_plain:
  "urlencode ''email'' = ''email''" "urlencode ''name'' = ''name''"
  "urlencode ''type'' = ''type''" "urlencode ''session'' = ''session''"
  "urlencode ''journal'' = ''journal''" "urlencode ''research'' = ''research''"
  by code_simp+

lemma urlencode_examples:
  "urlencode ''a@tcioe.edu.np'' = ''a%40tcioe.edu.np''" "urlencode ''A B'' = ''A+B''"
  "urlencode ''s1'' = ''s1''"
  by code_simp+

lemma params_string:
  "URLSearchParams_toString
     [(''email'', e), (''name'', n), (''type'', t), (''session'', s)] =
   ''email='' @ urlencode e @ ''&name='' @ urlencode n @ ''&type='' @ urlencode t
     @ ''&session='' @ urlencode s"
  by (simp add: URLSearchParams_toString_def urlencode_plain)

section \<open>Ingestion of the verification result\<close>

text \<open>
  C1. When the query parameter \<open>verified\<close> is \<open>"true"\<close> and a proof is read from the
  storage, a form sets its verified flag, captures the proof's email and session
  identifier, and pre-fills the submitted-by email (and the name, when the proof carries a
  non-empty one) exactly when the proof's purpose is the form's own constant and
  \<open>Date.now()\<close> minus \<open>verifiedAt\<close> is below 1,800,000 ms. Any other proof changes nothing,
  so a form that was unverified stays unverified.
\<close>

theorem proof_ingestion:
  assumes "sessionStorage ''verification_complete'' = Some stored"
    and "stored \<noteq> []"
    and "JSON_parse stored = Parsed data"
  shows
    "(pf_purpose data = ''research_submission'' \<and> now - pf_verifiedAt data < 1800000 \<longrightarrow>
        research_effect JSON_parse now (Some ''true'') sessionStorage rs =
          (\<lparr>isVerified = True,
            verificationData = Some \<lparr>vd_email = pf_email data, vd_sessionId = pf_sessionId data\<rparr>,
            formValues = (formValues rs)
              \<lparr>r_submittedByEmail := pf_email data,
               r_submittedByName := js_or_str (pf_name data) (r_submittedByName (formValues rs))\<rparr>\<rparr>,
           [Toast ''Email verified successfully!'' Default]))
     \<and> (\<not> (pf_purpose data = ''research_submission'' \<and> now - pf_verifiedAt data < 1800000) \<longrightarrow>
        research_effect JSON_parse now (Some ''true'') sessionStorage rs = (rs, []))
     \<and> (\<not> isVerified rs \<longrightarrow>
        isVerified (fst (research_effect JSON_parse now (Some ''true'') sessionStorage rs)) =
          (pf_purpose data = ''research_submission'' \<and> now - pf_verifiedAt data < 1800000))
     \<and> (pf_purpose data = ''journal_submission'' \<and> now - pf_verifiedAt data < 1800000 \<longrightarrow>
        journal_effect JSON_parse now (Some ''true'') sessionStorage js =
          (\<lparr>isVerified = True,
            verificationData = Some \<lparr>vd_email = pf_email data, vd_sessionId = pf_sessionId data\<rparr>,
            formValues = (formValues js)
              \<lparr>j_submittedByEmail := pf_email data,
               j_submittedByName := js_or_str (pf_name data) (j_submittedByName (formValues js))\<rparr>\<rparr>,
           [Toast ''Email verified successfully!'' Default]))
     \<and> (\<not> (pf_purpose data = ''journal_submission'' \<and> now - pf_verifiedAt data < 1800000) \<longrightarrow>
        journal_effect JSON_parse now (Some ''true'') sessionStorage js = (js, []))
     \<and> (\<not> isVerified js \<longrightarrow>
        isVerified (fst (journal_effect JSON_parse now (Some ''true'') sessionStorage js)) =
          (pf_purpose data = ''journal_submission'' \<and> now - pf_verifiedAt data < 1800000))"
  using assms
  by (cases "pf_name data")
     (auto simp add: research_effect_def journal_effect_def js_or_str_def Let_def)

text \<open>
  The proof of the specification's example, one minute old, read by both forms: the
  research form is verified with the email pre-filled, the journal form is left as it was.
\<close>

theorem proof_ingestion_witness:
  "research_effect (\<lambda>s. Parsed example_proof) 1700000060000 (Some ''true'')
       [''verification_complete'' \<mapsto> ''stored''] (initial_state research_defaultValues) =
     (\<lparr>isVerified = True,
       verificationData = Some \<lparr>vd_email = ''a@x.np'', vd_sessionId = ''s1''\<rparr>,
       formValues = research_defaultValues\<lparr>r_submittedByEmail := ''a@x.np''\<rparr>\<rparr>,
      [Toast ''Email verified successfully!'' Default])
   \<and> journal_effect (\<lambda>s. Parsed example_proof) 1700000060000 (Some ''true'')
       [''verification_complete'' \<mapsto> ''stored''] (initial_state journal_defaultValues) =
     (initial_state journal_defaultValues, [])"
  using proof_ingestion [of "[''verification_complete'' \<mapsto> ''stored'']" "''stored''"
      "\<lambda>s. Parsed example_proof" example_proof 1700000060000
      "initial_state research_defaultValues" "initial_state journal_defaultValues"]
  by (simp add: example_proof_def initial_state_def js_or_str_def)

section \<open>Submission\<close>

text \<open>
  C2. Submitting while the verified flag is false, or while the captured verification
  data has no session identifier, sends no request: the handler shows the error toast and
  returns with the state and the storage as they were.
\<close>

theorem unverified_submit_sends_nothing:
  "(\<not> isVerified rs \<or> \<not> truthy (map_option vd_sessionId (verificationData rs)) \<longrightarrow>
      research_onSubmit dept answer rv sessionStorage rs =
        ((rs, sessionStorage), [Toast ''Verify your campus email before submitting'' Destructive])
      \<and> filter is_Fetch (snd (research_onSubmit dept answer rv sessionStorage rs)) = [])
   \<and> (\<not> isVerified js \<or> \<not> truthy (map_option vd_sessionId (verificationData js)) \<longrightarrow>
      journal_onSubmit dept answer jv sessionStorage js =
        ((js, sessionStorage), [Toast ''Verify your campus email before submitting'' Destructive])
      \<and> filter is_Fetch (snd (journal_onSubmit dept answer jv sessionStorage js)) = [])"
  by (auto simp add: research_onSubmit_def journal_onSubmit_def truthy_def
        split: option.splits)

theorem unverified_submit_sends_nothing_witness:
  "research_onSubmit ''d'' (Resolved \<lparr>ok = True, json = None\<rparr>) research_defaultValues Map.empty
       (initial_state research_defaultValues) =
     ((initial_state research_defaultValues, Map.empty),
      [Toast ''Verify your campus email before submitting'' Destructive])
   \<and> journal_onSubmit ''d'' (Resolved \<lparr>ok = True, json = None\<rparr>) journal_defaultValues Map.empty
       ((example_verified journal_defaultValues)
          \<lparr>verificationData := Some \<lparr>vd_email = ''a@x.np'', vd_sessionId = []\<rparr>\<rparr>) =
     (((example_verified journal_defaultValues)
          \<lparr>verificationData := Some \<lparr>vd_email = ''a@x.np'', vd_sessionId = []\<rparr>\<rparr>, Map.empty),
      [Toast ''Verify your campus email before submitting'' Destructive])"
  using unverified_submit_sends_nothing [of "initial_state research_defaultValues"
      "''d''" "Resolved \<lparr>ok = True, json = None\<rparr>" research_defaultValues Map.empty
      "(example_verified journal_defaultValues)
          \<lparr>verificationData := Some \<lparr>vd_email = ''a@x.np'', vd_sessionId = []\<rparr>\<rparr>"
      journal_defaultValues]
  by (simp add: initial_state_def example_verified_def truthy_def)

text \<open>
  C3. The person array of a payload holds exactly the rows whose name (\<open>fullName\<close> of a
  participant, \<open>givenName\<close> of an author) is non-empty after trimming, in their order. A
  row that is kept with every other text field blank has each of them absent, and no
  optional field of a row is ever the empty string; the participant type and the
  department are copied as they are.
\<close>

theorem person_rows_payload:
  "rp_participants (research_build_payload dept vd rv) =
     map (research_participant dept) (filter (\<lambda>p. trim (pt_fullName p) \<noteq> []) (r_participants rv))
   \<and> jp_authors (journal_build_payload dept vd jv) =
     map journal_author (filter (\<lambda>a. trim (au_givenName a) \<noteq> []) (j_authors jv))
   \<and> (trim (pt_email p) = [] \<and> trim (pt_role p) = [] \<and> trim (pt_designation p) = []
      \<and> trim (pt_organization p) = [] \<and> trim (pt_linkedinUrl p) = [] \<and> trim (pt_orcidId p) = [] \<longrightarrow>
      research_participant dept p =
        \<lparr>pp_full_name = trim (pt_fullName p), pp_participant_type = pt_participantType p,
         pp_email = None, pp_role = None, pp_designation = None, pp_organization = None,
         pp_linkedin_url = None, pp_orcid_id = None, pp_department = dept\<rparr>)
   \<and> (trim (au_familyName a) = [] \<and> trim (au_email a) = [] \<and> trim (au_affiliation a) = []
      \<and> trim (au_country a) = [] \<and> trim (au_bio a) = [] \<longrightarrow>
      journal_author a =
        \<lparr>ap_given_name = trim (au_givenName a), ap_family_name = None, ap_email = None,
         ap_affiliation = None, ap_country = None, ap_bio = None\<rparr>)
   \<and> pp_email (research_participant dept p) \<noteq> Some []
   \<and> pp_role (research_participant dept p) \<noteq> Some []
   \<and> pp_designation (research_participant dept p) \<noteq> Some []
   \<and> pp_organization (research_participant dept p) \<noteq> Some []
   \<and> pp_linkedin_url (research_participant dept p) \<noteq> Some []
   \<and> pp_orcid_id (research_participant dept p) \<noteq> Some []
   \<and> ap_family_name (journal_author a) \<noteq> Some []
   \<and> ap_email (journal_author a) \<noteq> Some []
   \<and> ap_affiliation (journal_author a) \<noteq> Some []
   \<and> ap_country (journal_author a) \<noteq> Some []
   \<and> ap_bio (journal_author a) \<noteq> Some []"
  by (simp add: research_build_payload_def journal_build_payload_def Let_def
        research_participants_filter journal_authors_filter
        research_participant_def journal_author_def or_undefined_def)

theorem person_rows_payload_witness:
  "rp_participants (research_build_payload ''d'' example_vd
       (research_defaultValues\<lparr>r_participants := [blank_participant, example_participant]\<rparr>)) =
     [\<lparr>pp_full_name = ''Ann'', pp_participant_type = ''faculty'',
       pp_email = None, pp_role = None, pp_designation = None, pp_organization = None,
       pp_linkedin_url = None, pp_orcid_id = None, pp_department = ''d''\<rparr>]
   \<and> jp_authors (journal_build_payload ''d'' example_vd
       (journal_defaultValues\<lparr>j_authors := [example_author, blank_author]\<rparr>)) =
     [\<lparr>ap_given_name = ''Bina'', ap_family_name = None, ap_email = None,
       ap_affiliation = None, ap_country = None, ap_bio = None\<rparr>]"
  using person_rows_payload [of "''d''" example_vd
      "research_defaultValues\<lparr>r_participants := [blank_participant, example_participant]\<rparr>"
      "journal_defaultValues\<lparr>j_authors := [example_author, blank_author]\<rparr>"
      example_participant example_author]
  by (simp add: blank_participant_def example_participant_def blank_author_def
        example_author_def trim_examples)

text \<open>
  C4, as the specification states it, also has the stored proof removed when the component
  is unmounted. Neither form gives its effect a cleanup, so unmounting leaves a proof
  stored under \<open>verification_complete\<close> where it is.
\<close>

theorem unmount_keeps_proof:
  "unmount research_effect_cleanup [''verification_complete'' \<mapsto> ''stored'']
       ''verification_complete'' = Some ''stored''
   \<and> unmount journal_effect_cleanup [''verification_complete'' \<mapsto> ''stored'']
       ''verification_complete'' = Some ''stored''"
  by (simp add: unmount_def research_effect_cleanup_def journal_effect_cleanup_def)

text \<open>
  C4, amended. A submission answered with success resets every form value to its default,
  clears the verified flag and the captured verification data and removes the storage key
  \<open>verification_complete\<close>. Unmounting a form leaves the storage unchanged.
\<close>

theorem success_resets_form:
  "(isVerified rs \<and> verificationData rs = Some vd \<and> vd_sessionId vd \<noteq> [] \<and> ok response \<longrightarrow>
      research_onSubmit dept (Resolved response) rv sessionStorage rs =
        ((\<lparr>isVerified = False, verificationData = None, formValues = research_defaultValues\<rparr>,
          sessionStorage(''verification_complete'' := None)),
         [Fetch ''/api/submissions/research'' (research_build_payload dept vd rv),
          Toast ''Research submitted for departmental review'' Default,
          RemoveItem ''verification_complete'']))
   \<and> (isVerified js \<and> verificationData js = Some vd \<and> vd_sessionId vd \<noteq> [] \<and> ok response
      \<and> journal_authors (j_authors jv) \<noteq> [] \<longrightarrow>
      journal_onSubmit dept (Resolved response) jv sessionStorage js =
        ((\<lparr>isVerified = False, verificationData = None, formValues = journal_defaultValues\<rparr>,
          sessionStorage(''verification_complete'' := None)),
         [Fetch ''/api/submissions/journal'' (journal_build_payload dept vd jv),
          Toast ''Journal article submitted'' Default,
          RemoveItem ''verification_complete'']))
   \<and> unmount research_effect_cleanup sessionStorage = sessionStorage
   \<and> unmount journal_effect_cleanup sessionStorage = sessionStorage"
  by (simp add: research_onSubmit_def journal_onSubmit_def Let_def unmount_def
        research_effect_cleanup_def journal_effect_cleanup_def)

theorem success_resets_form_witness:
  "research_onSubmit ''d'' (Resolved \<lparr>ok = True, json = None\<rparr>)
       (research_defaultValues\<lparr>r_title := ''T''\<rparr>) [''verification_complete'' \<mapsto> ''stored'']
       (example_verified (research_defaultValues\<lparr>r_title := ''T''\<rparr>)) =
     ((initial_state research_defaultValues, Map.empty),
      [Fetch ''/api/submissions/research''
         (research_build_payload ''d'' example_vd (research_defaultValues\<lparr>r_title := ''T''\<rparr>)),
       Toast ''Research submitted for departmental review'' Default,
       RemoveItem ''verification_complete''])
   \<and> journal_onSubmit ''d'' (Resolved \<lparr>ok = True, json = None\<rparr>)
       (journal_defaultValues\<lparr>j_authors := [example_author]\<rparr>)
       [''verification_complete'' \<mapsto> ''stored'']
       (example_verified (journal_defaultValues\<lparr>j_authors := [example_author]\<rparr>)) =
     ((initial_state journal_defaultValues, Map.empty),
      [Fetch ''/api/submissions/journal''
         (journal_build_payload ''d'' example_vd (journal_defaultValues\<lparr>j_authors := [example_author]\<rparr>)),
       Toast ''Journal article submitted'' Default,
       RemoveItem ''verification_complete''])"
  using success_resets_form [of "example_verified (research_defaultValues\<lparr>r_title := ''T''\<rparr>)"
      example_vd "\<lparr>ok = True, json = None\<rparr>" "''d''" "research_defaultValues\<lparr>r_title := ''T''\<rparr>"
      "[''verification_complete'' \<mapsto> ''stored'']"
      "example_verified (journal_defaultValues\<lparr>j_authors := [example_author]\<rparr>)"
      "journal_defaultValues\<lparr>j_authors := [example_author]\<rparr>"]
  by (simp add: example_verified_def example_vd_def initial_state_def journal_authors_filter
        example_author_def trim_examples)

text \<open>
  C5, as the specification states it, has a failing submission surface the server's
  \<open>detail\<close> or \<open>error\<close>, else the generic fallback. A \<open>fetch\<close> rejected with an \<open>Error\<close>
  surfaces that error's own message.
\<close>

theorem transport_error_message:
  "research_onSubmit ''d'' (Rejected (ErrorObj ''Failed to fetch'')) research_defaultValues
       Map.empty (example_verified research_defaultValues) =
     ((example_verified research_defaultValues, Map.empty),
      [Fetch ''/api/submissions/research''
         (research_build_payload ''d'' example_vd research_defaultValues),
       Toast ''Failed to fetch'' Destructive])
   \<and> ''Failed to fetch'' \<noteq> ''Failed to submit research''"
  by (simp add: research_onSubmit_def example_verified_def example_vd_def caught_message_def)

text \<open>
  C5, amended. A submission that fails, by a rejected \<open>fetch\<close> or by a non-success
  response, leaves the form values, the verified flag, the captured verification data and
  the storage as they were. What it surfaces is one destructive toast: for a non-success
  response the body's \<open>detail\<close>, else its \<open>error\<close>, else the generic fallback; for a
  rejected \<open>fetch\<close> the message of the thrown \<open>Error\<close>, or the generic fallback when what
  was thrown is not an \<open>Error\<close>.
\<close>

theorem failed_submit_preserves:
  "fst (research_onSubmit dept (Rejected e) rv sessionStorage rs) = (rs, sessionStorage)
   \<and> fst (journal_onSubmit dept (Rejected e) jv sessionStorage js) = (js, sessionStorage)
   \<and> (\<not> ok response \<longrightarrow>
        fst (research_onSubmit dept (Resolved response) rv sessionStorage rs) = (rs, sessionStorage)
        \<and> fst (journal_onSubmit dept (Resolved response) jv sessionStorage js) = (js, sessionStorage))
   \<and> (isVerified rs \<and> verificationData rs = Some vd \<and> vd_sessionId vd \<noteq> [] \<longrightarrow>
        snd (research_onSubmit dept (Rejected e) rv sessionStorage rs) =
          [Fetch ''/api/submissions/research'' (research_build_payload dept vd rv),
           Toast (case e of ErrorObj m \<Rightarrow> m | NonError \<Rightarrow> ''Failed to submit research'')
             Destructive]
        \<and> (\<not> ok response \<longrightarrow>
             snd (research_onSubmit dept (Resolved response) rv sessionStorage rs) =
               [Fetch ''/api/submissions/research'' (research_build_payload dept vd rv),
                Toast (js_or_str (js_or (member_opt (json_or_empty response) ''detail'')
                                        (member_opt (json_or_empty response) ''error''))
                         ''Failed to submit research'') Destructive]))
   \<and> (isVerified js \<and> verificationData js = Some vd \<and> vd_sessionId vd \<noteq> []
        \<and> journal_authors (j_authors jv) \<noteq> [] \<longrightarrow>
        snd (journal_onSubmit dept (Rejected e) jv sessionStorage js) =
          [Fetch ''/api/submissions/journal'' (journal_build_payload dept vd jv),
           Toast (case e of ErrorObj m \<Rightarrow> m | NonError \<Rightarrow> ''Failed to submit article'')
             Destructive]
        \<and> (\<not> ok response \<longrightarrow>
             snd (journal_onSubmit dept (Resolved response) jv sessionStorage js) =
               [Fetch ''/api/submissions/journal'' (journal_build_payload dept vd jv),
                Toast (js_or_str (js_or (member_opt (json_or_empty response) ''detail'')
                                        (member_opt (json_or_empty response) ''error''))
                         ''Failed to submit article'') Destructive]))"
  by (simp add: research_onSubmit_def journal_onSubmit_def Let_def caught_message_def
        split: option.splits)

theorem failed_submit_preserves_witness:
  "research_onSubmit ''d''
       (Resolved \<lparr>ok = False, json = Some (JsonObject [''error'' \<mapsto> ''Invalid OTP session''])\<rparr>)
       (research_defaultValues\<lparr>r_title := ''T''\<rparr>) [''verification_complete'' \<mapsto> ''stored'']
       (example_verified (research_defaultValues\<lparr>r_title := ''T''\<rparr>)) =
     ((example_verified (research_defaultValues\<lparr>r_title := ''T''\<rparr>),
       [''verification_complete'' \<mapsto> ''stored'']),
      [Fetch ''/api/submissions/research''
         (research_build_payload ''d'' example_vd (research_defaultValues\<lparr>r_title := ''T''\<rparr>)),
       Toast ''Invalid OTP session'' Destructive])
   \<and> journal_onSubmit ''d'' (Rejected NonError)
       (journal_defaultValues\<lparr>j_authors := [example_author]\<rparr>)
       [''verification_complete'' \<mapsto> ''stored'']
       (example_verified (journal_defaultValues\<lparr>j_authors := [example_author]\<rparr>)) =
     ((example_verified (journal_defaultValues\<lparr>j_authors := [example_author]\<rparr>),
       [''verification_complete'' \<mapsto> ''stored'']),
      [Fetch ''/api/submissions/journal''
         (journal_build_payload ''d'' example_vd (journal_defaultValues\<lparr>j_authors := [example_author]\<rparr>)),
       Toast ''Failed to submit article'' Destructive])"
  using failed_submit_preserves [of "''d''" "NonError"
      "research_defaultValues\<lparr>r_title := ''T''\<rparr>" "[''verification_complete'' \<mapsto> ''stored'']"
      "example_verified (research_defaultValues\<lparr>r_title := ''T''\<rparr>)"
      "journal_defaultValues\<lparr>j_authors := [example_author]\<rparr>"
      "example_verified (journal_defaultValues\<lparr>j_authors := [example_author]\<rparr>)"
      "\<lparr>ok = False, json = Some (JsonObject [''error'' \<mapsto> ''Invalid OTP session''])\<rparr>" example_vd]
  by (simp add: prod_eq_iff example_verified_def example_vd_def journal_authors_filter
        example_author_def trim_examples json_or_empty_def member_opt_def js_or_def js_or_str_def
        truthy_def)

text \<open>
  C6. A request sent by either form carries, as \<open>submitted_by_email\<close> and \<open>otp_session\<close>,
  the email and the session identifier of the captured verification data, which are those
  of the proof the form accepted. What is typed into the \<open>submittedByEmail\<close> field does
  not reach the request: two submissions that differ in that field only make the same
  calls.
\<close>

theorem payload_identity_from_proof:
  "(Fetch url p \<in> set (snd (research_onSubmit dept answer rv sessionStorage rs)) \<longrightarrow>
      (\<exists>vd. verificationData rs = Some vd \<and> rp_submitted_by_email p = vd_email vd
            \<and> rp_otp_session p = vd_sessionId vd))
   \<and> (Fetch url q \<in> set (snd (journal_onSubmit dept answer jv sessionStorage js)) \<longrightarrow>
      (\<exists>vd. verificationData js = Some vd \<and> jp_submitted_by_email q = vd_email vd
            \<and> jp_otp_session q = vd_sessionId vd))
   \<and> (stored_at ''verification_complete'' = Some stored \<and> stored \<noteq> []
      \<and> JSON_parse stored = Parsed data
      \<and> pf_purpose data = ''research_submission'' \<and> now - pf_verifiedAt data < 1800000
      \<and> Fetch url p' \<in> set (snd (research_onSubmit dept answer rv sessionStorage
            (fst (research_effect JSON_parse now (Some ''true'') stored_at rs)))) \<longrightarrow>
      rp_submitted_by_email p' = pf_email data \<and> rp_otp_session p' = pf_sessionId data)
   \<and> (stored_at ''verification_complete'' = Some stored \<and> stored \<noteq> []
      \<and> JSON_parse stored = Parsed data
      \<and> pf_purpose data = ''journal_submission'' \<and> now - pf_verifiedAt data < 1800000
      \<and> Fetch url q' \<in> set (snd (journal_onSubmit dept answer jv sessionStorage
            (fst (journal_effect JSON_parse now (Some ''true'') stored_at js)))) \<longrightarrow>
      jp_submitted_by_email q' = pf_email data \<and> jp_otp_session q' = pf_sessionId data)
   \<and> snd (research_onSubmit dept answer (rv\<lparr>r_submittedByEmail := typed\<rparr>) sessionStorage
             (rs\<lparr>formValues := (formValues rs)\<lparr>r_submittedByEmail := typed\<rparr>\<rparr>)) =
       snd (research_onSubmit dept answer rv sessionStorage rs)
   \<and> snd (journal_onSubmit dept answer (jv\<lparr>j_submittedByEmail := typed\<rparr>) sessionStorage
             (js\<lparr>formValues := (formValues js)\<lparr>j_submittedByEmail := typed\<rparr>\<rparr>)) =
       snd (journal_onSubmit dept answer jv sessionStorage js)"
proof -
  have a: "\<exists>vd. verificationData rs = Some vd \<and> rp_submitted_by_email p = vd_email vd
            \<and> rp_otp_session p = vd_sessionId vd"
    if "Fetch url p \<in> set (snd (research_onSubmit dept answer rv sessionStorage rs))"
    using research_request_payload [OF that] by (auto simp add: payload_identity)
  have b: "\<exists>vd. verificationData js = Some vd \<and> jp_submitted_by_email q = vd_email vd
            \<and> jp_otp_session q = vd_sessionId vd"
    if "Fetch url q \<in> set (snd (journal_onSubmit dept answer jv sessionStorage js))"
    using journal_request_payload [OF that] by (auto simp add: payload_identity)
  have c: "rp_submitted_by_email p' = pf_email data \<and> rp_otp_session p' = pf_sessionId data"
    if "stored_at ''verification_complete'' = Some stored" "stored \<noteq> []"
      "JSON_parse stored = Parsed data"
      "pf_purpose data = ''research_submission'' \<and> now - pf_verifiedAt data < 1800000"
      "Fetch url p' \<in> set (snd (research_onSubmit dept answer rv sessionStorage
            (fst (research_effect JSON_parse now (Some ''true'') stored_at rs))))"
    using research_request_payload [OF that(5)]
      research_effect_captures [of stored_at stored JSON_parse data now rs] that(1-4)
    by (auto simp add: payload_identity)
  have d: "jp_submitted_by_email q' = pf_email data \<and> jp_otp_session q' = pf_sessionId data"
    if "stored_at ''verification_complete'' = Some stored" "stored \<noteq> []"
      "JSON_parse stored = Parsed data"
      "pf_purpose data = ''journal_submission'' \<and> now - pf_verifiedAt data < 1800000"
      "Fetch url q' \<in> set (snd (journal_onSubmit dept answer jv sessionStorage
            (fst (journal_effect JSON_parse now (Some ''true'') stored_at js))))"
    using journal_request_payload [OF that(5)]
      journal_effect_captures [of stored_at stored JSON_parse data now js] that(1-4)
    by (auto simp add: payload_identity)
  have e: "snd (research_onSubmit dept answer (rv\<lparr>r_submittedByEmail := typed\<rparr>) sessionStorage
             (rs\<lparr>formValues := (formValues rs)\<lparr>r_submittedByEmail := typed\<rparr>\<rparr>)) =
       snd (research_onSubmit dept answer rv sessionStorage rs)"
    by (simp add: research_onSubmit_def Let_def payload_ignores_typed_email
          split: option.splits fetch_result.splits)
  have f: "snd (journal_onSubmit dept answer (jv\<lparr>j_submittedByEmail := typed\<rparr>) sessionStorage
             (js\<lparr>formValues := (formValues js)\<lparr>j_submittedByEmail := typed\<rparr>\<rparr>)) =
       snd (journal_onSubmit dept answer jv sessionStorage js)"
    by (simp add: journal_onSubmit_def Let_def payload_ignores_typed_email
          split: option.splits fetch_result.splits)
  from a b c d e f show ?thesis by blast
qed

theorem payload_identity_from_proof_witness:
  "rp_submitted_by_email (research_build_payload ''d'' example_vd
       (research_defaultValues\<lparr>r_submittedByEmail := ''typed@y.np''\<rparr>)) = ''a@x.np''
   \<and> rp_otp_session (research_build_payload ''d'' example_vd
       (research_defaultValues\<lparr>r_submittedByEmail := ''typed@y.np''\<rparr>)) = ''s1''
   \<and> jp_submitted_by_email (journal_build_payload ''d'' example_vd
       (journal_defaultValues\<lparr>j_authors := [example_author]\<rparr>)) = ''a@x.np''
   \<and> jp_otp_session (journal_build_payload ''d'' example_vd
       (journal_defaultValues\<lparr>j_authors := [example_author]\<rparr>)) = ''s1''
   \<and> Fetch ''/api/submissions/research''
         (research_build_payload ''d'' example_vd
            (research_defaultValues\<lparr>r_submittedByEmail := ''typed@y.np''\<rparr>))
       \<in> set (snd (research_onSubmit ''d'' (Rejected NonError)
             (research_defaultValues\<lparr>r_submittedByEmail := ''typed@y.np''\<rparr>) Map.empty
             (fst (research_effect (\<lambda>s. Parsed example_proof) 1700000060000 (Some ''true'')
                [''verification_complete'' \<mapsto> ''stored'']
                (initial_state research_defaultValues)))))"
proof -
  let ?rv = "research_defaultValues\<lparr>r_submittedByEmail := ''typed@y.np''\<rparr>"
  let ?jv = "journal_defaultValues\<lparr>j_authors := [example_author]\<rparr>"
  let ?store = "[''verification_complete'' \<mapsto> ''stored'']"
  let ?rs = "initial_state research_defaultValues"
  let ?js = "initial_state journal_defaultValues"
  let ?jparse = "\<lambda>s::string. Parsed (example_proof\<lparr>pf_purpose := ''journal_submission''\<rparr>)"
  have rs: "fst (research_effect (\<lambda>s. Parsed example_proof) 1700000060000 (Some ''true'')
              ?store ?rs) = example_verified (research_defaultValues\<lparr>r_submittedByEmail := ''a@x.np''\<rparr>)"
    by (simp add: research_effect_def example_proof_def initial_state_def example_verified_def)
  have js: "fst (journal_effect ?jparse 1700000060000 (Some ''true'') ?store ?js) =
              example_verified (journal_defaultValues\<lparr>j_submittedByEmail := ''a@x.np''\<rparr>)"
    by (simp add: journal_effect_def example_proof_def initial_state_def example_verified_def)
  have r: "Fetch ''/api/submissions/research'' (research_build_payload ''d'' example_vd ?rv)
             \<in> set (snd (research_onSubmit ''d'' (Rejected NonError) ?rv Map.empty
                  (fst (research_effect (\<lambda>s. Parsed example_proof) 1700000060000 (Some ''true'')
                     ?store ?rs))))"
    unfolding rs by (simp add: research_onSubmit_def example_verified_def example_vd_def)
  have j: "Fetch ''/api/submissions/journal'' (journal_build_payload ''d'' example_vd ?jv)
             \<in> set (snd (journal_onSubmit ''d'' (Rejected NonError) ?jv Map.empty
                  (fst (journal_effect ?jparse 1700000060000 (Some ''true'') ?store ?js))))"
    unfolding js
    by (simp add: journal_onSubmit_def example_verified_def example_vd_def
          journal_authors_filter example_author_def trim_examples)
  have stored: "?store ''verification_complete'' = Some ''stored''" "''stored'' \<noteq> []"
    by simp_all
  have fresh: "pf_purpose example_proof = ''research_submission''"
    "1700000060000 - pf_verifiedAt example_proof < 1800000"
    "pf_email example_proof = ''a@x.np''" "pf_sessionId example_proof = ''s1''"
    by (simp_all add: example_proof_def)
  have r': "Fetch ''/api/submissions/research'' (research_build_payload ''d'' example_vd ?rv)
             \<in> set (snd (research_onSubmit ''d'' (Rejected NonError) ?rv Map.empty
                  (example_verified ?rv)))"
    by (simp add: research_onSubmit_def example_verified_def example_vd_def)
  have j': "Fetch ''/api/submissions/journal'' (journal_build_payload ''d'' example_vd ?jv)
             \<in> set (snd (journal_onSubmit ''d'' (Rejected NonError) ?jv Map.empty
                  (example_verified ?jv)))"
    by (simp add: journal_onSubmit_def example_verified_def example_vd_def
          journal_authors_filter example_author_def trim_examples)
  note research_direct = payload_identity_from_proof [where url = "''/api/submissions/research''"
      and p = "research_build_payload ''d'' example_vd ?rv"
      and dept = "''d''" and answer = "Rejected NonError" and rv = ?rv
      and sessionStorage = Map.empty and rs = "example_verified ?rv"]
  note journal_direct = payload_identity_from_proof [where url = "''/api/submissions/journal''"
      and q = "journal_build_payload ''d'' example_vd ?jv"
      and dept = "''d''" and answer = "Rejected NonError" and jv = ?jv
      and sessionStorage = Map.empty and js = "example_verified ?jv"]
  note research_after_effect = payload_identity_from_proof [where url = "''/api/submissions/research''"
      and p' = "research_build_payload ''d'' example_vd ?rv"
      and dept = "''d''" and answer = "Rejected NonError" and rv = ?rv
      and sessionStorage = Map.empty and rs = ?rs
      and stored_at = ?store and stored = "''stored''"
      and JSON_parse = "\<lambda>s. Parsed example_proof" and data = example_proof
      and now = 1700000060000]
  note journal_after_effect = payload_identity_from_proof [where url = "''/api/submissions/journal''"
      and q' = "journal_build_payload ''d'' example_vd ?jv"
      and dept = "''d''" and answer = "Rejected NonError" and jv = ?jv
      and sessionStorage = Map.empty and js = ?js
      and stored_at = ?store and stored = "''stored''"
      and JSON_parse = ?jparse
      and data = "example_proof\<lparr>pf_purpose := ''journal_submission''\<rparr>"
      and now = 1700000060000]
  have "rp_submitted_by_email (research_build_payload ''d'' example_vd ?rv) = ''a@x.np''"
    using research_after_effect r stored fresh by simp
  moreover have "rp_otp_session (research_build_payload ''d'' example_vd ?rv) = ''s1''"
    using research_direct r' by (simp add: example_verified_def example_vd_def)
  moreover have "jp_submitted_by_email (journal_build_payload ''d'' example_vd ?jv) = ''a@x.np''"
    using journal_after_effect j stored fresh by simp
  moreover have "jp_otp_session (journal_build_payload ''d'' example_vd ?jv) = ''s1''"
    using journal_direct j' by (simp add: example_verified_def example_vd_def)
  ultimately show ?thesis using r by simp
qed

text \<open>
  C7. A numeric field left blank is not absent from the payload. \<open>Number("")\<close> is 0 and 0
  is not \<open>NaN\<close>, so a blank funding amount, year, volume or issue is sent as the number 0;
  this is so for the default values of both forms.
\<close>

theorem blank_numeric_sent_as_zero:
  "rp_funding_amount (research_build_payload dept vd (rv\<lparr>r_fundingAmount := []\<rparr>)) = Some (Num 0)
   \<and> jp_year (journal_build_payload dept vd (jv\<lparr>j_year := []\<rparr>)) = Some (Num 0)
   \<and> jp_volume (journal_build_payload dept vd (jv\<lparr>j_volume := []\<rparr>)) = Some (Num 0)
   \<and> jp_number (journal_build_payload dept vd (jv\<lparr>j_number := []\<rparr>)) = Some (Num 0)
   \<and> rp_funding_amount (research_build_payload dept vd research_defaultValues) = Some (Num 0)
   \<and> jp_year (journal_build_payload dept vd journal_defaultValues) = Some (Num 0)"
  by (simp add: research_build_payload_def journal_build_payload_def Let_def js_Number_blank
        nan_to_undefined_def research_defaultValues_def journal_defaultValues_def)

text \<open>
  C8, as the specification states it, has the dropping of nameless rows never abort a
  submission. The journal form, verified, with title, genre and abstract filled and its
  one author row holding a space as given name, passes the required rules, drops the row,
  and stops with a toast, sending nothing.
\<close>

theorem journal_without_author_aborts:
  "journal_handleSubmit ''d'' (Resolved \<lparr>ok = True, json = None\<rparr>)
       [''verification_complete'' \<mapsto> ''stored'']
       (example_verified (filled_journal [spaces_author])) =
     Inr ((example_verified (filled_journal [spaces_author]),
           [''verification_complete'' \<mapsto> ''stored'']),
          [Toast ''Add at least one author'' Destructive])"
  by (simp add: journal_handleSubmit_def journal_rules_empty journal_onSubmit_def
        example_verified_def filled_journal_def journal_authors_filter spaces_author_def
        trim_examples)

text \<open>
  C8, amended. On the research form a participant row without a name after trimming is
  dropped and is no error: once the required fields are filled the request is sent
  whatever the rows are, with an empty participant array when every row is dropped. On the
  journal form a row whose given name is the empty string fails the \<open>required\<close> rule of
  that field and the handler is not called; a row whose given name is white space only
  passes the rule and is dropped. The request is sent with the named rows as long as one
  row has a name after trimming; when every row is dropped the handler shows
  \<open>Add at least one author\<close> and returns without a request, the state and the storage
  unchanged.
\<close>

theorem dropped_rows_submission:
  "(isVerified rs \<and> verificationData rs = Some vd \<and> vd_sessionId vd \<noteq> []
      \<and> r_title (formValues rs) \<noteq> [] \<and> r_principalInvestigator (formValues rs) \<noteq> []
      \<and> r_piEmail (formValues rs) \<noteq> [] \<longrightarrow>
      research_handleSubmit dept answer sessionStorage rs =
        Inr (research_onSubmit dept answer (formValues rs) sessionStorage rs)
      \<and> filter is_Fetch (snd (research_onSubmit dept answer (formValues rs) sessionStorage rs)) =
        [Fetch ''/api/submissions/research'' (research_build_payload dept vd (formValues rs))]
      \<and> rp_participants (research_build_payload dept vd (formValues rs)) =
          map (research_participant dept)
            (filter (\<lambda>p. trim (pt_fullName p) \<noteq> []) (r_participants (formValues rs))))
   \<and> (list_all (\<lambda>p. trim (pt_fullName p) = []) (r_participants rv) \<longrightarrow>
      rp_participants (research_build_payload dept vd rv) = [])
   \<and> (isVerified js \<and> verificationData js = Some vd \<and> vd_sessionId vd \<noteq> []
      \<and> j_title (formValues js) \<noteq> [] \<and> j_genre (formValues js) \<noteq> []
      \<and> j_abstract (formValues js) \<noteq> []
      \<and> list_all (\<lambda>a. au_givenName a \<noteq> []) (j_authors (formValues js))
      \<and> list_ex (\<lambda>a. trim (au_givenName a) \<noteq> []) (j_authors (formValues js)) \<longrightarrow>
      journal_handleSubmit dept answer sessionStorage js =
        Inr (journal_onSubmit dept answer (formValues js) sessionStorage js)
      \<and> filter is_Fetch (snd (journal_onSubmit dept answer (formValues js) sessionStorage js)) =
        [Fetch ''/api/submissions/journal'' (journal_build_payload dept vd (formValues js))]
      \<and> jp_authors (journal_build_payload dept vd (formValues js)) =
          map journal_author
            (filter (\<lambda>a. trim (au_givenName a) \<noteq> []) (j_authors (formValues js))))
   \<and> (isVerified js \<and> verificationData js = Some vd \<and> vd_sessionId vd \<noteq> []
      \<and> j_title (formValues js) \<noteq> [] \<and> j_genre (formValues js) \<noteq> []
      \<and> j_abstract (formValues js) \<noteq> []
      \<and> list_all (\<lambda>a. au_givenName a \<noteq> []) (j_authors (formValues js))
      \<and> list_all (\<lambda>a. trim (au_givenName a) = []) (j_authors (formValues js)) \<longrightarrow>
      journal_handleSubmit dept answer sessionStorage js =
        Inr ((js, sessionStorage), [Toast ''Add at least one author'' Destructive]))
   \<and> (i < length (j_authors (formValues js)) \<and> au_givenName (j_authors (formValues js) ! i) = [] \<longrightarrow>
      journal_handleSubmit dept answer sessionStorage js = Inl (journal_rules (formValues js))
      \<and> (AuthorGivenName i, ''Required'') \<in> set (journal_rules (formValues js)))"
proof -
  have research: "research_handleSubmit dept answer sessionStorage rs =
        Inr (research_onSubmit dept answer (formValues rs) sessionStorage rs)
      \<and> filter is_Fetch (snd (research_onSubmit dept answer (formValues rs) sessionStorage rs)) =
        [Fetch ''/api/submissions/research'' (research_build_payload dept vd (formValues rs))]"
    if "isVerified rs" "verificationData rs = Some vd" "vd_sessionId vd \<noteq> []"
      "r_title (formValues rs) \<noteq> []" "r_principalInvestigator (formValues rs) \<noteq> []"
      "r_piEmail (formValues rs) \<noteq> []"
    using that
    by (simp add: research_handleSubmit_def research_rules_empty research_onSubmit_def Let_def
          split: fetch_result.splits)
  have rows: "rp_participants (research_build_payload dept vd v) =
          map (research_participant dept)
            (filter (\<lambda>p. trim (pt_fullName p) \<noteq> []) (r_participants v))" for v
    by (simp add: research_build_payload_def Let_def research_participants_filter)
  have none: "rp_participants (research_build_payload dept vd rv) = []"
    if "list_all (\<lambda>p. trim (pt_fullName p) = []) (r_participants rv)"
    using that by (simp add: rows filter_empty_conv list_all_iff)
  have valid: "journal_rules (formValues js) = []"
    if "j_title (formValues js) \<noteq> []" "j_genre (formValues js) \<noteq> []"
      "j_abstract (formValues js) \<noteq> []"
      "list_all (\<lambda>a. au_givenName a \<noteq> []) (j_authors (formValues js))"
    using that by (simp add: journal_rules_empty)
  have journal: "journal_handleSubmit dept answer sessionStorage js =
        Inr (journal_onSubmit dept answer (formValues js) sessionStorage js)
      \<and> filter is_Fetch (snd (journal_onSubmit dept answer (formValues js) sessionStorage js)) =
        [Fetch ''/api/submissions/journal'' (journal_build_payload dept vd (formValues js))]"
    if "isVerified js" "verificationData js = Some vd" "vd_sessionId vd \<noteq> []"
      "journal_rules (formValues js) = []"
      "list_ex (\<lambda>a. trim (au_givenName a) \<noteq> []) (j_authors (formValues js))"
    using that
    by (simp add: journal_handleSubmit_def journal_onSubmit_def Let_def journal_authors_filter
          filter_empty_conv list_ex_iff split: fetch_result.splits)
  have authors: "jp_authors (journal_build_payload dept vd (formValues js)) =
          map journal_author
            (filter (\<lambda>a. trim (au_givenName a) \<noteq> []) (j_authors (formValues js)))"
    by (simp add: journal_build_payload_def Let_def journal_authors_filter)
  have abort: "journal_handleSubmit dept answer sessionStorage js =
        Inr ((js, sessionStorage), [Toast ''Add at least one author'' Destructive])"
    if "isVerified js" "verificationData js = Some vd" "vd_sessionId vd \<noteq> []"
      "journal_rules (formValues js) = []"
      "list_all (\<lambda>a. trim (au_givenName a) = []) (j_authors (formValues js))"
    using that
    by (simp add: journal_handleSubmit_def journal_onSubmit_def journal_authors_filter
          filter_empty_conv list_all_iff)
  have invalid: "journal_handleSubmit dept answer sessionStorage js =
        Inl (journal_rules (formValues js))
      \<and> (AuthorGivenName i, ''Required'') \<in> set (journal_rules (formValues js))"
    if "i < length (j_authors (formValues js))" "au_givenName (j_authors (formValues js) ! i) = []"
  proof -
    have "(AuthorGivenName i, ''Required'') \<in> set (journal_rules (formValues js))"
      using author_rule_fails [OF that, of 0] by (simp add: journal_rules_def)
    then show ?thesis
      by (auto simp add: journal_handleSubmit_def Let_def)
  qed
  from research rows [of "formValues rs"] none valid journal authors abort invalid
  show ?thesis by blast
qed

theorem dropped_rows_submission_witness:
  "filter is_Fetch
       (snd (research_onSubmit ''d'' (Resolved \<lparr>ok = True, json = None\<rparr>) filled_research
          Map.empty (example_verified filled_research))) =
     [Fetch ''/api/submissions/research'' (research_build_payload ''d'' example_vd filled_research)]
   \<and> research_handleSubmit ''d'' (Resolved \<lparr>ok = True, json = None\<rparr>) Map.empty
         (example_verified filled_research) =
       Inr (research_onSubmit ''d'' (Resolved \<lparr>ok = True, json = None\<rparr>) filled_research
          Map.empty (example_verified filled_research))
   \<and> rp_participants (research_build_payload ''d'' example_vd filled_research) = []
   \<and> journal_handleSubmit ''d'' (Resolved \<lparr>ok = True, json = None\<rparr>) Map.empty
         (example_verified (filled_journal [spaces_author, example_author])) =
       Inr (journal_onSubmit ''d'' (Resolved \<lparr>ok = True, json = None\<rparr>)
              (filled_journal [spaces_author, example_author]) Map.empty
              (example_verified (filled_journal [spaces_author, example_author])))
   \<and> filter is_Fetch
         (snd (journal_onSubmit ''d'' (Resolved \<lparr>ok = True, json = None\<rparr>)
            (filled_journal [spaces_author, example_author]) Map.empty
            (example_verified (filled_journal [spaces_author, example_author])))) =
       [Fetch ''/api/submissions/journal''
          (journal_build_payload ''d'' example_vd (filled_journal [spaces_author, example_author]))]
   \<and> jp_authors (journal_build_payload ''d'' example_vd
         (filled_journal [spaces_author, example_author])) = [journal_author example_author]
   \<and> journal_handleSubmit ''d'' (Resolved \<lparr>ok = True, json = None\<rparr>) Map.empty
         (example_verified (filled_journal [spaces_author])) =
       Inr ((example_verified (filled_journal [spaces_author]), Map.empty),
            [Toast ''Add at least one author'' Destructive])
   \<and> journal_handleSubmit ''d'' (Resolved \<lparr>ok = True, json = None\<rparr>) Map.empty
         (example_verified (filled_journal [example_author, blank_author])) =
       Inl [(AuthorGivenName 1, ''Required'')]"
proof -
  have state: "isVerified (example_verified v)"
    "verificationData (example_verified v) = Some example_vd"
    "formValues (example_verified v) = v" for v :: 'v
    by (simp_all add: example_verified_def example_vd_def)
  have session: "vd_sessionId example_vd \<noteq> []"
    by (simp add: example_vd_def)
  have research_values: "r_title filled_research \<noteq> []"
    "r_principalInvestigator filled_research \<noteq> []" "r_piEmail filled_research \<noteq> []"
    "list_all (\<lambda>p. trim (pt_fullName p) = []) (r_participants filled_research)"
    by (simp_all add: filled_research_def research_defaultValues_def trim_examples)
  have journal_values: "j_title (filled_journal rows) \<noteq> []" "j_genre (filled_journal rows) \<noteq> []"
    "j_abstract (filled_journal rows) \<noteq> []" "j_authors (filled_journal rows) = rows" for rows
    by (simp_all add: filled_journal_def)
  have names: "au_givenName spaces_author = '' ''" "au_givenName example_author = ''Bina''"
    "au_givenName blank_author = []"
    by (simp_all add: spaces_author_def example_author_def blank_author_def)
  have kept: "filter (\<lambda>a. trim (au_givenName a) \<noteq> []) [spaces_author, example_author] =
      [example_author]"
    by (simp add: names trim_examples)
  have failed: "journal_rules (filled_journal [example_author, blank_author]) =
      [(AuthorGivenName 1, ''Required'')]"
    by (simp add: journal_rules_def required_def journal_values names enumerate_eq_zip)
  note sent = dropped_rows_submission [of "example_verified filled_research" example_vd
      "''d''" "Resolved \<lparr>ok = True, json = None\<rparr>" Map.empty filled_research
      "example_verified (filled_journal [spaces_author, example_author])" 0]
  note dropped = dropped_rows_submission [of "example_verified filled_research" example_vd
      "''d''" "Resolved \<lparr>ok = True, json = None\<rparr>" Map.empty filled_research
      "example_verified (filled_journal [spaces_author])" 0]
  note refused = dropped_rows_submission [of "example_verified filled_research" example_vd
      "''d''" "Resolved \<lparr>ok = True, json = None\<rparr>" Map.empty filled_research
      "example_verified (filled_journal [example_author, blank_author])" 1]
  from sent dropped refused show ?thesis
    by (simp add: state session research_values journal_values names kept failed trim_examples)
qed

section \<open>Requesting a verification code\<close>

text \<open>
  C9, as the specification states it, has every successful response followed by the
  navigation. A success response whose body parses to \<open>null\<close> makes the read of
  \<open>data.session_id\<close> throw: the step shows the text of the \<open>TypeError\<close>, stores nothing and
  does not navigate.
\<close>

theorem null_body_no_navigation:
  "journal_handleVerify ''Cannot read properties of null (reading 'session_id')''
       (Resolved \<lparr>ok = True, json = Some JsonNull\<rparr>) Map.empty
       \<lparr>vs_name = ''A B'', vs_email = ''a@tcioe.edu.np'', vs_sending = False\<rparr> =
     ((\<lparr>vs_name = ''A B'', vs_email = ''a@tcioe.edu.np'', vs_sending = False\<rparr>, Map.empty),
      [Fetch ''/api/submissions/otp/request''
         \<lparr>otp_email = ''a@tcioe.edu.np'', otp_full_name = ''A B'',
          otp_purpose = ''journal_submission''\<rparr>,
       Toast ''Cannot read properties of null (reading 'session_id')'' Destructive])"
  by (simp add: journal_handleVerify_def handleVerify_def Let_def trim_examples json_or_empty_def
        member_strict_def caught_message_def)

text \<open>
  C9, amended. When the OTP request is answered with success and the body does not parse
  to \<open>null\<close>, the verification step stores the trimmed name under
  \<open>pending_verification_name\<close> and then navigates to \<open>/verification\<close> with the query
  parameters email, name, type and session, in this order and form-urlencoded; the session
  is the response's \<open>session_id\<close>, else its \<open>sessionId\<close>.
\<close>

theorem otp_success_navigates:
  "(trim (vs_name vs) \<noteq> [] \<and> trim (vs_email vs) \<noteq> [] \<and> ok response
      \<and> json_or_empty response = JsonObject data \<longrightarrow>
      journal_handleVerify type_error_text (Resolved response) sessionStorage vs =
        ((vs\<lparr>vs_sending := False\<rparr>,
          sessionStorage(''pending_verification_name'' \<mapsto> trim (vs_name vs))),
         [Fetch ''/api/submissions/otp/request''
            \<lparr>otp_email = trim (vs_email vs), otp_full_name = trim (vs_name vs),
             otp_purpose = ''journal_submission''\<rparr>,
          SetItem ''pending_verification_name'' (trim (vs_name vs)),
          Push (''/verification?email='' @ urlencode (trim (vs_email vs))
                @ ''&name='' @ urlencode (trim (vs_name vs))
                @ ''&type=journal&session=''
                @ urlencode (to_string (js_or (data ''session_id'') (data ''sessionId''))))])
      \<and> research_handleVerify type_error_text (Resolved response) sessionStorage vs =
        ((vs\<lparr>vs_sending := False\<rparr>,
          sessionStorage(''pending_verification_name'' \<mapsto> trim (vs_name vs))),
         [Fetch ''/api/submissions/otp/request''
            \<lparr>otp_email = trim (vs_email vs), otp_full_name = trim (vs_name vs),
             otp_purpose = ''research_submission''\<rparr>,
          SetItem ''pending_verification_name'' (trim (vs_name vs)),
          Push (''/verification?email='' @ urlencode (trim (vs_email vs))
                @ ''&name='' @ urlencode (trim (vs_name vs))
                @ ''&type=research&session=''
                @ urlencode (to_string (js_or (data ''session_id'') (data ''sessionId''))))]))"
  by (simp add: journal_handleVerify_def research_handleVerify_def handleVerify_def Let_def
        member_strict_def member_opt_def params_string urlencode_plain)

text \<open>
  The journal request of the specification's example, entered with white space around the
  name and before the email, answered with session \<open>s1\<close>.
\<close>

theorem otp_success_navigates_witness:
  "journal_handleVerify ''Cannot read properties of null (reading 'session_id')''
       (Resolved \<lparr>ok = True, json = Some (JsonObject [''session_id'' \<mapsto> ''s1''])\<rparr>)
       Map.empty \<lparr>vs_name = '' A B '', vs_email = '' a@tcioe.edu.np'', vs_sending = False\<rparr> =
     ((\<lparr>vs_name = '' A B '', vs_email = '' a@tcioe.edu.np'', vs_sending = False\<rparr>,
       [''pending_verification_name'' \<mapsto> ''A B'']),
      [Fetch ''/api/submissions/otp/request''
         \<lparr>otp_email = ''a@tcioe.edu.np'', otp_full_name = ''A B'',
          otp_purpose = ''journal_submission''\<rparr>,
       SetItem ''pending_verification_name'' ''A B'',
       Push ''/verification?email=a%40tcioe.edu.np&name=A+B&type=journal&session=s1''])"
  using otp_success_navigates [of
      "\<lparr>vs_name = '' A B '', vs_email = '' a@tcioe.edu.np'', vs_sending = False\<rparr>"
      "\<lparr>ok = True, json = Some (JsonObject [''session_id'' \<mapsto> ''s1''])\<rparr>"
      "[''session_id'' \<mapsto> ''s1'']"
      "''Cannot read properties of null (reading 'session_id')''" Map.empty]
  by (simp add: trim_examples urlencode_examples json_or_empty_def js_or_def truthy_def
        to_string_def)

end
